theory Spec2Isabelle
  imports Main
begin

unbundle bit_operations_syntax

section \<open>Python and SQLite primitives used by the session engine\<close>

text \<open>
  Strings are ASCII byte strings; every string the engine builds itself (decimal user ids,
  random digits, status names, hexadecimal digests) is ASCII.
\<close>

definition digit_char :: "nat \<Rightarrow> char" where
  "digit_char d = char_of (48 + d)"

text \<open>\<^verbatim>\<open>str(n)\<close> for a non-negative Python int.\<close>

fun str_nat :: "nat \<Rightarrow> string" where
  "str_nat n = (if n < 10 then [digit_char n] else str_nat (n div 10) @ [digit_char (n mod 10)])"

declare str_nat.simps [simp del]

text \<open>\<^verbatim>\<open>str(i)\<close> for a Python int.\<close>

definition str_int :: "int \<Rightarrow> string" where
  "str_int i = (if i < 0 then CHR ''-'' # str_nat (nat (- i)) else str_nat (nat i))"

text \<open>\<^verbatim>\<open>ord(c)\<close>.\<close>

definition py_ord :: "char \<Rightarrow> nat" where
  "py_ord c = of_char c"

text \<open>\<^verbatim>\<open>c.isdigit()\<close> on an ASCII character.\<close>

definition isdigit :: "char \<Rightarrow> bool" where
  "isdigit c = (48 \<le> py_ord c \<and> py_ord c \<le> 57)"

text \<open>\<^verbatim>\<open>c.isalnum()\<close> on an ASCII character.\<close>

definition isalnum :: "char \<Rightarrow> bool" where
  "isalnum c = (isdigit c \<or> (65 \<le> py_ord c \<and> py_ord c \<le> 90)
                 \<or> (97 \<le> py_ord c \<and> py_ord c \<le> 122))"

text \<open>\<^verbatim>\<open>c.isspace()\<close> on an ASCII character: tab, line feed, vertical tab, form feed,
  carriage return, the four separators 28 to 31, and the space.\<close>

definition isspace :: "char \<Rightarrow> bool" where
  "isspace c = ((9 \<le> py_ord c \<and> py_ord c \<le> 13)
                 \<or> (28 \<le> py_ord c \<and> py_ord c \<le> 32))"

text \<open>\<^verbatim>\<open>s.strip()\<close>.\<close>

definition strip :: "string \<Rightarrow> string" where
  "strip s = rev (dropWhile isspace (rev (dropWhile isspace s)))"

text \<open>\<^verbatim>\<open>s.startswith(p)\<close>.\<close>

definition startswith :: "string \<Rightarrow> string \<Rightarrow> bool" where
  "startswith s p = (take (length p) s = p)"

text \<open>The slice \<^verbatim>\<open>s[i:j]\<close> for non-negative \<open>i\<close>, \<open>j\<close>; out-of-range bounds are clipped
  and an empty string results when \<open>j \<le> i\<close>, as in Python.\<close>

definition slice :: "string \<Rightarrow> nat \<Rightarrow> nat \<Rightarrow> string" where
  "slice s i j = take (j - i) (drop i s)"

text \<open>The slice \<^verbatim>\<open>s[i:-k]\<close> for non-negative \<open>i\<close> and positive \<open>k\<close>: the stop index is
  \<open>len(s) - k\<close>, clipped at 0.\<close>

definition slice_to_end :: "string \<Rightarrow> nat \<Rightarrow> nat \<Rightarrow> string" where
  "slice_to_end s i k = slice s i (length s - k)"

text \<open>Truthiness of an optional text value: \<^verbatim>\<open>None\<close> and \<^verbatim>\<open>''\<close> are false.\<close>

definition truthy :: "string option \<Rightarrow> bool" where
  "truthy v = (case v of None \<Rightarrow> False | Some s \<Rightarrow> s \<noteq> [])"

section \<open>Connection tokens (private\_connection.py, private\_link\_verifier.py)\<close>

text \<open>
  \<^verbatim>\<open>generate_random_number(digits)\<close> draws \<^verbatim>\<open>random.randint(10 ** (digits - 1), 10 ** digits - 1)\<close>
  and renders it with \<^verbatim>\<open>str\<close>. The draw is an explicit argument of the model;
  \<open>random_number_range\<close> is the set of values the draw can take.
\<close>

definition random_number_range :: "nat \<Rightarrow> nat \<Rightarrow> bool" where
  "random_number_range digits r = (10 ^ (digits - 1) \<le> r \<and> r \<le> 10 ^ digits - 1)"

definition generate_random_number :: "nat \<Rightarrow> string" where
  "generate_random_number r = str_nat r"

text \<open>\<^verbatim>\<open>generate_connection_string(otp, user_id)\<close> with its two random draws \<open>six\<close> and \<open>five\<close>.\<close>

definition generate_connection_string :: "string \<Rightarrow> int \<Rightarrow> nat \<Rightarrow> nat \<Rightarrow> string" where
  "generate_connection_string otp user_id six five =
     ''/92'' @ generate_random_number six @ otp @ str_int user_id @ generate_random_number five"

text \<open>The first steps of \<^verbatim>\<open>verify_private_link\<close>: dropping the \<^verbatim>\<open>/92\<close> prefix, then the
  two slices \<^verbatim>\<open>link_text[6:10]\<close> and \<^verbatim>\<open>link_text[10:-5]\<close>.\<close>

definition strip_link_prefix :: "string \<Rightarrow> string" where
  "strip_link_prefix link_text = (if startswith link_text ''/92'' then drop 3 link_text else link_text)"

definition otp_from_link :: "string \<Rightarrow> string" where
  "otp_from_link link_text = slice link_text 6 10"

definition peer_id_from_link :: "string \<Rightarrow> string" where
  "peer_id_from_link link_text = slice_to_end link_text 10 5"

section \<open>The users table\<close>

text \<open>
  One row of the table \<^verbatim>\<open>users\<close> (telegram\_db\_manager.py): \<^verbatim>\<open>USER_ID INTEGER PRIMARY KEY\<close>,
  \<^verbatim>\<open>PEER_ID TEXT\<close>, \<^verbatim>\<open>STATUS TEXT\<close>, \<^verbatim>\<open>TIMER INTEGER\<close>, \<^verbatim>\<open>OTP TEXT\<close>, \<^verbatim>\<open>OTP_EXP\<close>,
  \<^verbatim>\<open>ANONY_NAME TEXT\<close>. A nullable text column is a \<open>string option\<close>, \<open>None\<close> being
  \<^verbatim>\<open>NULL\<close>. \<^verbatim>\<open>PEER_ID\<close> has text affinity: a Python int bound to it is stored as its
  decimal text.
\<close>

record user =
  user_id :: int
  peer_id :: "string option"
  status :: string
  timer :: int
  otp :: "string option"
  otp_exp :: "string option"
  anony_name :: string

text \<open>The table is the list of its rows. The store is taken to be available: every
  \<^verbatim>\<open>connect_database()\<close> succeeds and no statement raises \<^verbatim>\<open>sqlite3.Error\<close>.\<close>

type_synonym users = "user list"

text \<open>\<^verbatim>\<open>SELECT ... FROM users WHERE USER_ID = ?\<close> followed by \<^verbatim>\<open>fetchone()\<close>, with an
  integer parameter.\<close>

definition select_user :: "users \<Rightarrow> int \<Rightarrow> user option" where
  "select_user db uid = find (\<lambda>r. user_id r = uid) db"

text \<open>\<^verbatim>\<open>UPDATE users SET ... WHERE USER_ID = ?\<close> with an integer parameter; \<open>f\<close> is the
  \<^verbatim>\<open>SET\<close> clause.\<close>

definition update_users :: "users \<Rightarrow> int \<Rightarrow> (user \<Rightarrow> user) \<Rightarrow> users" where
  "update_users db uid f = map (\<lambda>r. if user_id r = uid then f r else r) db"

text \<open>
  When the parameter compared with \<^verbatim>\<open>USER_ID\<close> is a text (a \<^verbatim>\<open>PEER_ID\<close> read back from the
  table, or the issuer id cut out of a link), SQLite (3.46) applies numeric affinity to it
  before comparing: a text that is a well-formed integer or real number is converted, white
  space around it being ignored, and equals the \<^verbatim>\<open>USER_ID\<close> that has its value; any other text
  equals no \<^verbatim>\<open>USER_ID\<close>. So \<^verbatim>\<open>' 30000'\<close>, \<^verbatim>\<open>'3.0e4'\<close> and \<^verbatim>\<open>'30000.0'\<close> all find user 30000.
  \<open>sql_integer\<close> gives the integer a text is converted to, if any. Where the value of a real
  number is not a whole number of at most 64 bits, SQLite computes it in the floating-point
  arithmetic of the platform; the correctly rounded double is taken here.
\<close>

definition digit_value :: "char \<Rightarrow> nat" where
  "digit_value c = py_ord c - 48"

definition digits_value :: "string \<Rightarrow> nat" where
  "digits_value s = foldl (\<lambda>n c. 10 * n + digit_value c) 0 s"

text \<open>The white space of SQLite (\<^verbatim>\<open>sqlite3Isspace\<close>): the characters 9 to 13 and the space.\<close>

definition sql_isspace :: "char \<Rightarrow> bool" where
  "sql_isspace c = ((9 \<le> py_ord c \<and> py_ord c \<le> 13) \<or> py_ord c = 32)"

text \<open>The values of a 64-bit signed integer, which is what a \<^verbatim>\<open>USER_ID\<close> can hold.\<close>

definition int64_range :: "int \<Rightarrow> bool" where
  "int64_range i = (- 9223372036854775808 \<le> i \<and> i \<le> 9223372036854775807)"

text \<open>
  A text that is a well-formed number: white space, an optional sign, digits, an optional point
  followed by digits, an optional exponent (\<^verbatim>\<open>e\<close> or \<^verbatim>\<open>E\<close>, an optional sign, at least one
  digit), white space. At least one digit stands before or after the point.
\<close>

record numeric_literal =
  negative :: bool
  int_digits :: string
  has_point :: bool
  frac_digits :: string
  has_exponent :: bool
  exp_negative :: bool
  exp_digits :: string

definition scan_sign :: "string \<Rightarrow> bool \<times> string" where
  "scan_sign z = (case z of
                    [] \<Rightarrow> (False, [])
                  | c # cs \<Rightarrow> if c = CHR ''-'' then (True, cs)
                             else if c = CHR ''+'' then (False, cs) else (False, c # cs))"

definition scan_fraction :: "string \<Rightarrow> bool \<times> string \<times> string" where
  "scan_fraction z = (case z of
                        [] \<Rightarrow> (False, [], [])
                      | c # cs \<Rightarrow> if c = CHR ''.'' then (True, takeWhile isdigit cs, dropWhile isdigit cs)
                                 else (False, [], c # cs))"

definition scan_exponent :: "string \<Rightarrow> bool \<times> bool \<times> string \<times> string" where
  "scan_exponent z = (case z of
                        [] \<Rightarrow> (False, False, [], [])
                      | c # cs \<Rightarrow>
                          if c = CHR ''e'' \<or> c = CHR ''E'' then
                            (case scan_sign cs of
                               (eneg, ds) \<Rightarrow> (True, eneg, takeWhile isdigit ds, dropWhile isdigit ds))
                          else (False, False, [], c # cs))"

definition scan_literal :: "string \<Rightarrow> numeric_literal option" where
  "scan_literal z =
     (case scan_sign (dropWhile sql_isspace z) of
        (neg, z1) \<Rightarrow>
          (case scan_fraction (dropWhile isdigit z1) of
             (point, fd, z2) \<Rightarrow>
               (case scan_exponent z2 of
                  (ex, eneg, ed, z3) \<Rightarrow>
                    if dropWhile sql_isspace z3 = []
                       \<and> \<not> (takeWhile isdigit z1 = [] \<and> fd = [])
                       \<and> (if ex then ed \<noteq> [] else True)
                    then Some \<lparr>negative = neg, int_digits = takeWhile isdigit z1, has_point = point,
                               frac_digits = fd, has_exponent = ex, exp_negative = eneg,
                               exp_digits = ed\<rparr>
                    else None)))"

text \<open>
  The significand is collected in an unsigned 64-bit integer: once it has reached
  \<open>significand_limit\<close> further digits before the point only raise the decimal exponent and
  further digits after the point are dropped. The digits of the exponent are collected up to
  10000.
\<close>

definition significand_limit :: int where
  "significand_limit = 1844674407370955160"

definition add_int_digit :: "int \<times> int \<Rightarrow> char \<Rightarrow> int \<times> int" where
  "add_int_digit sd c =
     (case sd of (s, d) \<Rightarrow>
        if s < significand_limit then (10 * s + int (digit_value c), d) else (s, d + 1))"

definition add_frac_digit :: "int \<times> int \<Rightarrow> char \<Rightarrow> int \<times> int" where
  "add_frac_digit sd c =
     (case sd of (s, d) \<Rightarrow>
        if s < significand_limit then (10 * s + int (digit_value c), d - 1) else (s, d))"

definition add_exp_digit :: "int \<Rightarrow> char \<Rightarrow> int" where
  "add_exp_digit e c = (if e < 10000 then 10 * e + int (digit_value c) else 10000)"

text \<open>The decimal exponent is brought towards zero as far as the 64-bit significand allows.\<close>

fun scale_up :: "int \<Rightarrow> nat \<Rightarrow> int \<times> nat" where
  "scale_up s 0 = (s, 0)"
| "scale_up s (Suc e) = (if s < 1844674407370955161 then scale_up (10 * s) e else (s, Suc e))"

fun scale_down :: "int \<Rightarrow> nat \<Rightarrow> int \<times> nat" where
  "scale_down s 0 = (s, 0)"
| "scale_down s (Suc k) = (if s mod 10 = 0 then scale_down (s div 10) k else (s, Suc k))"

text \<open>
  The double nearest to the fraction \<open>n / d\<close> (\<open>n\<close>, \<open>d\<close> positive), ties to even, given back
  when it is a whole number: \<open>floor_log2\<close> finds the binary exponent, the unit of the last of
  the 53 bits is \<open>2 ^ u\<close>, and \<open>round_half_even\<close> rounds the quotient.
\<close>

function bit_length :: "int \<Rightarrow> int" where
  "bit_length n = (if n \<le> 0 then 0 else 1 + bit_length (n div 2))"
  by pat_completeness auto
termination
  by (relation "measure nat") auto

declare bit_length.simps [simp del]

definition floor_log2 :: "int \<Rightarrow> int \<Rightarrow> int" where
  "floor_log2 n d =
     (let g = bit_length n - bit_length d
      in if (if 0 \<le> g then d * 2 ^ nat g \<le> n else d \<le> n * 2 ^ nat (- g)) then g else g - 1)"

definition round_half_even :: "int \<Rightarrow> int \<Rightarrow> int" where
  "round_half_even num den =
     (let m = num div den; r = num mod den
      in if den < 2 * r \<or> (2 * r = den \<and> odd m) then m + 1 else m)"

definition double_as_integer :: "int \<Rightarrow> int \<Rightarrow> int option" where
  "double_as_integer n d =
     (let u = max (floor_log2 n d) (- 1022) - 52
      in if 0 \<le> u then Some (round_half_even n (d * 2 ^ nat u) * 2 ^ nat u)
         else
           let m = round_half_even (n * 2 ^ nat (- u)) d
           in if m mod 2 ^ nat (- u) = 0 then Some (m div 2 ^ nat (- u)) else None)"

text \<open>The whole number, if any, that a text with a point or an exponent stands for as a double.\<close>

definition real_literal_integer :: "numeric_literal \<Rightarrow> int option" where
  "real_literal_integer l =
     (case foldl add_frac_digit (foldl add_int_digit (0, 0) (int_digits l)) (frac_digits l) of
        (s, d) \<Rightarrow>
          if s = 0 then Some 0
          else
            let e0 = foldl add_exp_digit 0 (exp_digits l);
                e = (if exp_negative l then - e0 else e0) + d
            in if 0 \<le> e then
                 (case scale_up s (nat e) of
                    (s1, e1) \<Rightarrow> if 0 < e1 then None else double_as_integer s1 1)
               else
                 (case scale_down s (nat (- e)) of
                    (s1, k1) \<Rightarrow> double_as_integer s1 (10 ^ k1)))"

text \<open>
  The integer a text is compared as. A text without point and exponent is read exactly and
  must fit 64 bits; any other well-formed number is read as a double, which must be a whole
  number strictly between the bounds of a 64-bit integer.
\<close>

definition sql_integer :: "string \<Rightarrow> int option" where
  "sql_integer z =
     (case scan_literal z of
        None \<Rightarrow> None
      | Some l \<Rightarrow>
          if \<not> has_point l \<and> \<not> has_exponent l then
            (let v = (if negative l then - int (digits_value (int_digits l))
                      else int (digits_value (int_digits l)))
             in if int64_range v then Some v else None)
          else
            (case real_literal_integer l of
               None \<Rightarrow> None
             | Some v \<Rightarrow>
                 if v < 9223372036854775808 then Some (if negative l then - v else v) else None))"

definition select_user_text :: "users \<Rightarrow> string \<Rightarrow> user option" where
  "select_user_text db s = (case sql_integer s of None \<Rightarrow> None | Some uid \<Rightarrow> select_user db uid)"

definition update_users_text :: "users \<Rightarrow> string \<Rightarrow> (user \<Rightarrow> user) \<Rightarrow> users" where
  "update_users_text db s f = (case sql_integer s of None \<Rightarrow> db | Some uid \<Rightarrow> update_users db uid f)"

text \<open>
  The Telegram client: \<open>send_message_ok chat\<close> says that \<^verbatim>\<open>bot.send_message(chat, ...)\<close>
  returns (it raises otherwise, for instance when the user has blocked the bot), the chat id
  given as its decimal text; \<open>answer_callback_query_ok\<close> says the same of
  \<^verbatim>\<open>bot.answer_callback_query\<close>.
\<close>

record bot =
  send_message_ok :: "string \<Rightarrow> bool"
  answer_callback_query_ok :: bool

section \<open>Random connection (random\_connection.py)\<close>

datatype random_result = Random_error | Waiting | Random_success int

text \<open>\<^verbatim>\<open>SELECT USER_ID FROM users WHERE STATUS = 'OPEN' AND USER_ID != ?\<close> followed by
  \<^verbatim>\<open>fetchall()\<close>.\<close>

definition available_users :: "users \<Rightarrow> int \<Rightarrow> int list" where
  "available_users db uid = map user_id (filter (\<lambda>r. status r = ''OPEN'' \<and> user_id r \<noteq> uid) db)"

text \<open>\<^verbatim>\<open>find_random_partner(user_id)\<close>; \<open>pick\<close> is the draw of \<^verbatim>\<open>random.choice\<close>, used as
  an index into the candidates.\<close>

definition find_random_partner :: "users \<Rightarrow> int \<Rightarrow> nat \<Rightarrow> random_result \<times> users" where
  "find_random_partner db uid pick =
     (case select_user db uid of
        None \<Rightarrow> (Random_error, db)
      | Some u \<Rightarrow>
          if status u \<notin> set [''OPEN'', ''IDLE''] then (Random_error, db)
          else
            let available = available_users db uid
            in if available = [] then
                 (Waiting,
                  if status u \<noteq> ''OPEN'' then update_users db uid (\<lambda>r. r\<lparr>status := ''OPEN''\<rparr>) else db)
               else
                 let partner_id = available ! (pick mod length available);
                     db1 = update_users db uid
                             (\<lambda>r. r\<lparr>peer_id := Some (str_int partner_id), status := ''RANDOM''\<rparr>);
                     db2 = update_users db1 partner_id
                             (\<lambda>r. r\<lparr>peer_id := Some (str_int uid), status := ''RANDOM''\<rparr>)
                 in (Random_success partner_id, db2))"

section \<open>Private links (private\_connection.py, otp\_clean.py, private\_link\_verifier.py)\<close>

text \<open>\<^verbatim>\<open>generate_otp()\<close> renders the draw of \<^verbatim>\<open>random.randint(1000, 9999)\<close>; \<open>otp_range\<close>
  is the set of values the draw can take.\<close>

definition otp_range :: "nat \<Rightarrow> bool" where
  "otp_range r = (1000 \<le> r \<and> r \<le> 9999)"

definition generate_otp :: "nat \<Rightarrow> string" where
  "generate_otp r = str_nat r"

text \<open>The result dictionary of \<^verbatim>\<open>check_user_status\<close>: its \<^verbatim>\<open>status\<close>, and the \<^verbatim>\<open>otp\<close> and
  \<^verbatim>\<open>connection_string\<close> it carries.\<close>

datatype link_result =
    Link_error
  | Already_connected
  | Otp_exists string string
  | Link_success string string

text \<open>The truth value of \<^verbatim>\<open>existing_otp and existing_otp.strip()\<close>.\<close>

definition live_otp :: "string option \<Rightarrow> bool" where
  "live_otp v = (case v of None \<Rightarrow> False | Some s \<Rightarrow> s \<noteq> [] \<and> strip s \<noteq> [])"

text \<open>\<^verbatim>\<open>check_user_status(user_id)\<close>; \<open>r\<close> is the draw of \<^verbatim>\<open>generate_otp\<close>, \<open>six\<close> and
  \<open>five\<close> those of \<^verbatim>\<open>generate_connection_string\<close>.\<close>

definition check_user_status :: "users \<Rightarrow> int \<Rightarrow> nat \<Rightarrow> nat \<Rightarrow> nat \<Rightarrow> link_result \<times> users" where
  "check_user_status db uid r six five =
     (case select_user db uid of
        None \<Rightarrow> (Link_error, db)
      | Some u \<Rightarrow>
          if truthy (peer_id u) \<and> status u = ''PRIVATE'' then (Already_connected, db)
          else
            (case (if live_otp (otp u) then otp u else None) of
               Some existing_otp \<Rightarrow>
                 (Otp_exists existing_otp (generate_connection_string existing_otp uid six five), db)
             | None \<Rightarrow>
                 let new_otp = generate_otp r
                 in (Link_success new_otp (generate_connection_string new_otp uid six five),
                     update_users db uid
                       (\<lambda>r. r\<lparr>status := ''PRIVATE'', timer := 5760, otp := Some new_otp\<rparr>))))"

text \<open>\<^verbatim>\<open>clean_otp(user_id)\<close> of otp\_clean.py once its \<^verbatim>\<open>time.sleep(10)\<close> is over.\<close>

definition clean_otp :: "users \<Rightarrow> int \<Rightarrow> users" where
  "clean_otp db uid =
     (case select_user db uid of
        None \<Rightarrow> db
      | Some u \<Rightarrow>
          if status u \<in> set [''RANDOM'', ''PRIVATE'', ''CONNECTED'', ''CLOSED'', ''AI''] then db
          else update_users db uid (\<lambda>r. r\<lparr>otp := Some [], otp_exp := Some []\<rparr>))"

text \<open>The task \<^verbatim>\<open>_clean_task\<close> started by \<^verbatim>\<open>clean_otp_directly(user_id)\<close> of
  private\_connection.py, once its \<^verbatim>\<open>time.sleep(10)\<close> is over.\<close>

definition clean_otp_directly :: "users \<Rightarrow> int \<Rightarrow> users" where
  "clean_otp_directly db uid =
     (case select_user db uid of
        None \<Rightarrow> db
      | Some u \<Rightarrow>
          if status u \<in> set [''RANDOM'', ''PRIVATE'', ''CONNECTED'', ''CLOSED'', ''AI''] then db
          else update_users db uid (\<lambda>r. r\<lparr>otp := Some [], otp_exp := Some []\<rparr>))"

datatype verify_result =
    Invalid_format
  | Self_connect
  | Peer_not_found
  | Expired_or_incorrect
  | Confirmation_needed string

text \<open>
  \<^verbatim>\<open>verify_private_link(link_text, user_id)\<close>. Every path returns before the first write: the
  statements after the \<^verbatim>\<open>confirmation_needed\<close> return are never reached. The table is
  returned with the result so that the effect on it can be stated.
\<close>

definition verify_private_link :: "users \<Rightarrow> string \<Rightarrow> int \<Rightarrow> verify_result \<times> users" where
  "verify_private_link db link_text0 uid =
     (let link_text = strip_link_prefix link_text0
      in if length link_text < 20 then (Invalid_format, db)
         else
           let otp_l = otp_from_link link_text;
               peer_l = peer_id_from_link link_text
           in if str_int uid = peer_l then (Self_connect, db)
              else
                (case select_user_text db peer_l of
                   None \<Rightarrow> (Peer_not_found, db)
                 | Some peer \<Rightarrow>
                     if \<not> truthy (otp peer) \<or> otp peer \<noteq> Some otp_l then (Expired_or_incorrect, db)
                     else (Confirmation_needed peer_l, db)))"

section \<open>MD5 (\<^verbatim>\<open>hashlib.md5(...).hexdigest()\<close>)\<close>

text \<open>
  The digest of RFC 1321 on byte lists. The four state words are integers kept below
  \<open>2^32\<close> by \<open>mod 4294967296\<close>; indices and shift counts are natural numbers.
\<close>

definition md5_K :: "int list" where
  "md5_K = [3614090360, 3905402710, 606105819, 3250441966, 4118548399, 1200080426, 2821735955, 4249261313,
     1770035416, 2336552879, 4294925233, 2304563134, 1804603682, 4254626195, 2792965006, 1236535329,
     4129170786, 3225465664, 643717713, 3921069994, 3593408605, 38016083, 3634488961, 3889429448,
     568446438, 3275163606, 4107603335, 1163531501, 2850285829, 4243563512, 1735328473, 2368359562,
     4294588738, 2272392833, 1839030562, 4259657740, 2763975236, 1272893353, 4139469664, 3200236656,
     681279174, 3936430074, 3572445317, 76029189, 3654602809, 3873151461, 530742520, 3299628645,
     4096336452, 1126891415, 2878612391, 4237533241, 1700485571, 2399980690, 4293915773, 2240044497,
     1873313359, 4264355552, 2734768916, 1309151649, 4149444226, 3174756917, 718787259, 3951481745]"

definition md5_s :: "nat list" where
  "md5_s = [7, 12, 17, 22, 7, 12, 17, 22, 7, 12, 17, 22, 7, 12, 17, 22,
            5, 9, 14, 20, 5, 9, 14, 20, 5, 9, 14, 20, 5, 9, 14, 20,
            4, 11, 16, 23, 4, 11, 16, 23, 4, 11, 16, 23, 4, 11, 16, 23,
            6, 10, 15, 21, 6, 10, 15, 21, 6, 10, 15, 21, 6, 10, 15, 21]"

definition not32 :: "int \<Rightarrow> int" where
  "not32 x = 4294967295 - x"

definition leftrotate :: "int \<Rightarrow> nat \<Rightarrow> int" where
  "leftrotate x c = (x * 2 ^ c) mod 4294967296 + x div 2 ^ (32 - c)"

definition md5_F :: "nat \<Rightarrow> int \<Rightarrow> int \<Rightarrow> int \<Rightarrow> int" where
  "md5_F i B C D =
     (if i < 16 then (B AND C) OR (not32 B AND D)
      else if i < 32 then (D AND B) OR (not32 D AND C)
      else if i < 48 then B XOR C XOR D
      else C XOR (B OR not32 D))"

definition md5_g :: "nat \<Rightarrow> nat" where
  "md5_g i =
     (if i < 16 then i
      else if i < 32 then (5 * i + 1) mod 16
      else if i < 48 then (3 * i + 5) mod 16
      else (7 * i) mod 16)"

fun md5_round :: "int list \<Rightarrow> int \<times> int \<times> int \<times> int \<Rightarrow> nat \<Rightarrow> int \<times> int \<times> int \<times> int" where
  "md5_round M (A, B, C, D) i =
     (D, (B + leftrotate ((md5_F i B C D + A + md5_K ! i + M ! md5_g i) mod 4294967296) (md5_s ! i))
           mod 4294967296, B, C)"

fun md5_add :: "int \<times> int \<times> int \<times> int \<Rightarrow> int \<times> int \<times> int \<times> int \<Rightarrow> int \<times> int \<times> int \<times> int" where
  "md5_add (a0, b0, c0, d0) (A, B, C, D) =
     ((a0 + A) mod 4294967296, (b0 + B) mod 4294967296, (c0 + C) mod 4294967296, (d0 + D) mod 4294967296)"

definition md5_chunk :: "int \<times> int \<times> int \<times> int \<Rightarrow> int list \<Rightarrow> int \<times> int \<times> int \<times> int" where
  "md5_chunk st M = md5_add st (foldl (md5_round M) st [0..<64])"

definition le_bytes :: "nat \<Rightarrow> int \<Rightarrow> int list" where
  "le_bytes k n = map (\<lambda>i. (n div 256 ^ i) mod 256) [0..<k]"

definition md5_pad :: "int list \<Rightarrow> int list" where
  "md5_pad bs = bs @ [128] @ replicate ((119 - length bs mod 64) mod 64) 0
                  @ le_bytes 8 ((8 * int (length bs)) mod 18446744073709551616)"

fun le_words :: "int list \<Rightarrow> int list" where
  "le_words (b0 # b1 # b2 # b3 # bs) =
     (b0 + 256 * b1 + 65536 * b2 + 16777216 * b3) # le_words bs"
| "le_words _ = []"

fun chunks :: "int list \<Rightarrow> int list list" where
  "chunks [] = []"
| "chunks (w # ws) = take 16 (w # ws) # chunks (drop 16 (w # ws))"

fun md5_bytes :: "int \<times> int \<times> int \<times> int \<Rightarrow> int list" where
  "md5_bytes (a, b, c, d) = le_bytes 4 a @ le_bytes 4 b @ le_bytes 4 c @ le_bytes 4 d"

definition md5_digest :: "int list \<Rightarrow> int list" where
  "md5_digest bs =
     md5_bytes (foldl md5_chunk (1732584193, 4023233417, 2562383102, 271733878)
                 (chunks (le_words (md5_pad bs))))"

definition hex_char :: "int \<Rightarrow> char" where
  "hex_char d = (if d < 10 then char_of (48 + d) else char_of (87 + d))"

definition hexdigest :: "int list \<Rightarrow> string" where
  "hexdigest bs = concat (map (\<lambda>b. [hex_char (b div 16), hex_char (b mod 16)]) bs)"

definition md5_hexdigest :: "string \<Rightarrow> string" where
  "md5_hexdigest s = hexdigest (md5_digest (map (\<lambda>c. int (of_char c)) s))"

section \<open>Broadcast channel ids (create\_broadcasting.py)\<close>

text \<open>\<^verbatim>\<open>s.upper()\<close> on an ASCII string.\<close>

definition upper_char :: "char \<Rightarrow> char" where
  "upper_char c = (if 97 \<le> py_ord c \<and> py_ord c \<le> 122 then char_of (py_ord c - 32) else c)"

definition upper :: "string \<Rightarrow> string" where
  "upper s = map upper_char s"

text \<open>What \<^verbatim>\<open>generate_random_alphanumeric(length)\<close> can return: \<open>length\<close> characters, each a
  letter or a digit.\<close>

definition random_alphanumeric :: "nat \<Rightarrow> string \<Rightarrow> bool" where
  "random_alphanumeric n s = (length s = n \<and> list_all isalnum s)"

text \<open>\<^verbatim>\<open>create_broadcasting_channel_id(user_id, anony_name)\<close>; \<open>p1\<close>, \<open>p2\<close>, \<open>p3\<close> are the
  draws of \<^verbatim>\<open>generate_random_alphanumeric\<close> for 2, 3 and 4 characters.\<close>

definition create_broadcasting_channel_id :: "int \<Rightarrow> string \<Rightarrow> string \<Rightarrow> string \<Rightarrow> string \<Rightarrow> string" where
  "create_broadcasting_channel_id uid name p1 p2 p3 =
     ''/BCST'' @ upper p1 @ str_int uid @ upper p2 @ name @ upper p3"

text \<open>\<^verbatim>\<open>validate_listener_channel_id(channel_id)\<close>.\<close>

definition validate_listener_channel_id :: "string \<Rightarrow> bool" where
  "validate_listener_channel_id channel_id =
     (if channel_id = [] then False else startswith (strip channel_id) ''/BCST'')"

text \<open>
  \<^verbatim>\<open>re.search(r'/BCST:.{5}(\d+)', channel_id)\<close>, giving group 1 of the leftmost match.
  \<open>match_here s\<close> is the match that starts at the head of \<open>s\<close>: the six characters
  \<^verbatim>\<open>/BCST:\<close>, five characters other than a line feed, then the longest run of digits, which
  must not be empty.
\<close>

definition match_here :: "string \<Rightarrow> string option" where
  "match_here s =
     (if startswith s ''/BCST:'' \<and> 11 \<le> length s \<and> list_all (\<lambda>c. py_ord c \<noteq> 10) (slice s 6 11)
          \<and> takeWhile isdigit (drop 11 s) \<noteq> []
      then Some (takeWhile isdigit (drop 11 s)) else None)"

fun re_search :: "string \<Rightarrow> string option" where
  "re_search [] = None"
| "re_search (c # cs) =
     (case match_here (c # cs) of Some g \<Rightarrow> Some g | None \<Rightarrow> re_search cs)"

text \<open>The loop of the alternate method: the first run of digits of \<open>content\<close>.\<close>

definition digit_sequence :: "string \<Rightarrow> string" where
  "digit_sequence content = takeWhile isdigit (dropWhile (\<lambda>c. \<not> isdigit c) content)"

text \<open>\<^verbatim>\<open>extract_broadcaster_id(channel_id)\<close>.\<close>

definition extract_broadcaster_id :: "string \<Rightarrow> string option" where
  "extract_broadcaster_id channel_id =
     (if \<not> startswith channel_id ''/BCST'' then None
      else
        (case re_search channel_id of
           Some uid \<Rightarrow> Some uid
         | None \<Rightarrow>
             if 11 < length channel_id then
               (if digit_sequence (drop 11 channel_id) \<noteq> []
                then Some (digit_sequence (drop 11 channel_id)) else None)
             else None))"

text \<open>The loop of \<^verbatim>\<open>convert_to_fixed_code\<close> over the first six characters of the digest.\<close>

definition code_char :: "char \<Rightarrow> char" where
  "code_char c = (if \<not> isalnum c then char_of (97 + py_ord c mod 26) else c)"

text \<open>\<^verbatim>\<open>convert_to_fixed_code(channel_id)\<close>.\<close>

definition convert_to_fixed_code :: "string \<Rightarrow> string" where
  "convert_to_fixed_code channel_id =
     (let hash_input = (case extract_broadcaster_id channel_id of
                          None \<Rightarrow> channel_id
                        | Some broadcaster_id \<Rightarrow> if broadcaster_id = [] then channel_id else broadcaster_id)
      in map code_char (take 6 (md5_hexdigest hash_input)))"

section \<open>Joining a broadcast (process\_broadcasting.py)\<close>

text \<open>\<^verbatim>\<open>process_broadcasting_channel_id(bot, message, user_id)\<close>, \<open>text_in\<close> being
  \<^verbatim>\<open>message.text\<close>. The messages it sends come after the commit or on a path without a
  write.\<close>

definition process_broadcasting_channel_id :: "users \<Rightarrow> string \<Rightarrow> int \<Rightarrow> users" where
  "process_broadcasting_channel_id db text_in uid =
     (let channel_id = strip text_in
      in if \<not> validate_listener_channel_id channel_id then db
         else
           let fixed_code = convert_to_fixed_code channel_id
           in if fixed_code = [] then db
              else update_users db uid (\<lambda>r. r\<lparr>peer_id := Some fixed_code, status := ''LISTENER''\<rparr>))"

section \<open>Anonymous numbers (anony\_number.py)\<close>

text \<open>
  One of the two blocks of \<^verbatim>\<open>handle_an_connection_response\<close> that disconnect the current peer
  of a party, \<open>data\<close> being the row read for that party. The \<^verbatim>\<open>UPDATE\<close> follows
  \<^verbatim>\<open>bot.send_message\<close> inside the same \<^verbatim>\<open>try\<close>; when the message raises, the handler logs
  and the \<^verbatim>\<open>UPDATE\<close> is skipped.
\<close>

definition disconnect_current_peer :: "bot \<Rightarrow> users \<Rightarrow> user option \<Rightarrow> users" where
  "disconnect_current_peer b db data =
     (case data of
        None \<Rightarrow> db
      | Some u \<Rightarrow>
          if status u \<in> set [''CONNECTED'', ''PRIVATE'', ''RANDOM''] \<and> truthy (peer_id u) then
            (case peer_id u of
               None \<Rightarrow> db
             | Some current_peer_id \<Rightarrow>
                 if send_message_ok b current_peer_id then
                   update_users_text db current_peer_id (\<lambda>r. r\<lparr>status := ''CLOSED'', peer_id := None\<rparr>)
                 else db)
          else db)"

text \<open>\<^verbatim>\<open>handle_an_connection_response(bot, call)\<close> with \<^verbatim>\<open>call.data\<close> split into the action
  and the requester id, and \<^verbatim>\<open>call.from_user.id\<close> the responder id.\<close>

definition handle_an_connection_response :: "bot \<Rightarrow> users \<Rightarrow> string \<Rightarrow> int \<Rightarrow> int \<Rightarrow> users" where
  "handle_an_connection_response b db action requester_id responder_id =
     (if action = ''decline'' then db
      else
        let responder_data = select_user db responder_id;
            requester_data = select_user db requester_id;
            db1 = disconnect_current_peer b db responder_data;
            db2 = disconnect_current_peer b db1 requester_data;
            db3 = update_users db2 requester_id
                    (\<lambda>r. r\<lparr>status := ''CONNECTED'', peer_id := Some (str_int responder_id)\<rparr>);
            db4 = update_users db3 responder_id
                    (\<lambda>r. r\<lparr>status := ''CONNECTED'', peer_id := Some (str_int requester_id)\<rparr>)
        in db4)"

section \<open>Stop and forward (controls\_anonybot.py)\<close>

text \<open>\<^verbatim>\<open>get_user_status(user_id)\<close> and \<^verbatim>\<open>update_user_status(user_id, new_status)\<close>.\<close>

definition get_user_status :: "users \<Rightarrow> int \<Rightarrow> string option" where
  "get_user_status db uid = map_option status (select_user db uid)"

definition update_user_status :: "users \<Rightarrow> int \<Rightarrow> string \<Rightarrow> users" where
  "update_user_status db uid new_status = update_users db uid (\<lambda>r. r\<lparr>status := new_status\<rparr>)"

text \<open>
  \<^verbatim>\<open>handle_stop_button(bot, call)\<close> for the user \<open>uid\<close> in the chat \<open>chat_id\<close>. The messages
  to listeners and to the broadcaster are sent inside their own \<^verbatim>\<open>try\<close> and change nothing.
  After the status is set to \<^verbatim>\<open>CLOSED\<close>, a call of the client that raises ends the handler
  where it stands.
\<close>

definition handle_stop_button :: "bot \<Rightarrow> users \<Rightarrow> int \<Rightarrow> int \<Rightarrow> users" where
  "handle_stop_button b db uid chat_id =
     (if get_user_status db uid = Some ''CLOSED'' then db
      else
        (case select_user db uid of
           None \<Rightarrow> db
         | Some u \<Rightarrow>
             let db1 = update_user_status db uid ''CLOSED''
             in if \<not> answer_callback_query_ok b then db1
                else if \<not> send_message_ok b (str_int chat_id) then db1
                else if status u \<noteq> ''BROADCASTER'' \<and> truthy (peer_id u) then
                  (case peer_id u of
                     None \<Rightarrow> db1
                   | Some p \<Rightarrow>
                       let db2 = update_users_text db1 p (\<lambda>r. r\<lparr>status := ''CLOSED'', peer_id := None\<rparr>)
                       in if \<not> send_message_ok b p then db2
                          else update_users db2 uid (\<lambda>r. r\<lparr>peer_id := None\<rparr>))
                else update_users db1 uid (\<lambda>r. r\<lparr>peer_id := None\<rparr>)))"

datatype forward_alert = Status_changed | Not_valid

text \<open>\<^verbatim>\<open>handle_forward_button(bot, call)\<close> for the user \<open>uid\<close>; the alert is the one shown.\<close>

definition handle_forward_button :: "users \<Rightarrow> int \<Rightarrow> forward_alert \<times> users" where
  "handle_forward_button db uid =
     (if get_user_status db uid = Some ''RANDOM''
      then (Status_changed, update_user_status db uid ''OPEN'')
      else (Not_valid, db))"

section \<open>The engine as a transition system\<close>

datatype operation =
    Random_match int nat
  | Issue_private_link int nat nat nat
  | Verify_private_link string int
  | Clean_otp int
  | Clean_otp_directly int
  | An_response string int int
  | Join_broadcast string int
  | Stop int int
  | Forward int

fun step :: "bot \<Rightarrow> users \<Rightarrow> operation \<Rightarrow> users" where
  "step b db (Random_match uid pick) = snd (find_random_partner db uid pick)"
| "step b db (Issue_private_link uid r six five) = snd (check_user_status db uid r six five)"
| "step b db (Verify_private_link link_text uid) = snd (verify_private_link db link_text uid)"
| "step b db (Clean_otp uid) = clean_otp db uid"
| "step b db (Clean_otp_directly uid) = clean_otp_directly db uid"
| "step b db (An_response action requester_id responder_id) =
     handle_an_connection_response b db action requester_id responder_id"
| "step b db (Join_broadcast text_in uid) = process_broadcasting_channel_id db text_in uid"
| "step b db (Stop uid chat_id) = handle_stop_button b db uid chat_id"
| "step b db (Forward uid) = snd (handle_forward_button db uid)"

text \<open>The statuses of a two-sided connection, and the pairing invariant of the table: whoever
  points at a user from such a status is pointed back at from such a status.\<close>

definition bilateral :: "user \<Rightarrow> bool" where
  "bilateral u = (status u \<in> set [''RANDOM'', ''CONNECTED'', ''PRIVATE''] \<and> truthy (peer_id u))"

definition symmetric_pairing :: "users \<Rightarrow> bool" where
  "symmetric_pairing db =
     list_all (\<lambda>a. list_all (\<lambda>b.
        if bilateral a \<and> peer_id a = Some (str_int (user_id b))
        then bilateral b \<and> peer_id b = Some (str_int (user_id a)) else True) db) db"


section \<open>Lengths of the rendered random numbers\<close>

lemma ten_pow_div: "(10::nat) ^ Suc k \<le> n \<Longrightarrow> 10 ^ k \<le> n div 10"
  by (metis div_le_mono nonzero_mult_div_cancel_left power_Suc zero_neq_numeral)

lemma ten_pow_div_less: "n < (10::nat) ^ Suc (Suc k) \<Longrightarrow> n div 10 < 10 ^ Suc k"
  by (simp add: less_mult_imp_div_less mult.commute)

lemma length_str_nat_bounds:
  "10 ^ k \<le> n \<Longrightarrow> n < 10 ^ Suc k \<Longrightarrow> length (str_nat n) = Suc k"
proof (induction k arbitrary: n)
  case 0
  then show ?case by (simp add: str_nat.simps)
next
  case (Suc k)
  have "(10::nat) \<le> 10 ^ Suc k" by simp
  with Suc.prems have ge: "10 \<le> n" by linarith
  from Suc.prems have "10 ^ k \<le> n div 10" "n div 10 < 10 ^ Suc k"
    by (simp_all only: ten_pow_div ten_pow_div_less)
  then have "length (str_nat (n div 10)) = Suc k"
    by (rule Suc.IH)
  with ge show ?case
    by (subst str_nat.simps) simp
qed

lemma length_generate_random_number:
  assumes "0 < digits" and "random_number_range digits r"
  shows "length (generate_random_number r) = digits"
proof -
  obtain k where k: "digits = Suc k"
    using assms(1) by (cases digits) auto
  have "0 < (10::nat) ^ Suc k" by simp
  with assms(2) have "10 ^ k \<le> r" "r < 10 ^ Suc k"
    unfolding random_number_range_def k by (simp, linarith)
  then show ?thesis
    unfolding generate_random_number_def k by (rule length_str_nat_bounds)
qed

lemma length_str_nat_le: "n < 10 ^ Suc k \<Longrightarrow> length (str_nat n) \<le> Suc k"
proof (induction k arbitrary: n)
  case 0
  then show ?case by (simp add: str_nat.simps)
next
  case (Suc k)
  show ?case
  proof (cases "n < 10")
    case True
    then show ?thesis by (simp add: str_nat.simps)
  next
    case False
    from Suc.prems have "n div 10 < 10 ^ Suc k"
      by (rule ten_pow_div_less)
    then have "length (str_nat (n div 10)) \<le> Suc k"
      by (rule Suc.IH)
    with False show ?thesis
      by (subst str_nat.simps) simp
  qed
qed

lemma length_str_nat_ge: "10 ^ k \<le> n \<Longrightarrow> Suc k \<le> length (str_nat n)"
proof (induction k arbitrary: n)
  case 0
  show ?case
    by (cases "n < 10") (simp_all add: str_nat.simps [of n])
next
  case (Suc k)
  have "(10::nat) \<le> 10 ^ Suc k" by simp
  with Suc.prems have ge: "10 \<le> n" by linarith
  from Suc.prems have "10 ^ k \<le> n div 10"
    by (rule ten_pow_div)
  then have "Suc k \<le> length (str_nat (n div 10))"
    by (rule Suc.IH)
  with ge show ?case
    by (subst str_nat.simps) simp
qed

lemma length_six_digit: "random_number_range 6 six \<Longrightarrow> length (generate_random_number six) = 6"
  by (rule length_generate_random_number) simp_all

lemma length_five_digit: "random_number_range 5 five \<Longrightarrow> length (generate_random_number five) = 5"
  by (rule length_generate_random_number) simp_all

lemma strip_prefix_generated:
  "strip_link_prefix (generate_connection_string otp_v uid six five)
     = generate_random_number six @ otp_v @ str_int uid @ generate_random_number five"
  by (simp add: strip_link_prefix_def generate_connection_string_def startswith_def)

section \<open>C9: the connection token round trip\<close>

text \<open>
  Taken alone, the two slices of \<^verbatim>\<open>verify_private_link\<close> give back the OTP and the decimal text
  of the issuer id from the string of \<^verbatim>\<open>generate_connection_string\<close>, and that string has 15
  characters and the decimal text of the issuer id after its prefix.
\<close>

lemma slices_recover_otp_and_issuer:
  assumes "length otp_v = 4" and "random_number_range 6 six" and "random_number_range 5 five"
  shows "otp_from_link (strip_link_prefix (generate_connection_string otp_v uid six five)) = otp_v
       \<and> peer_id_from_link (strip_link_prefix (generate_connection_string otp_v uid six five)) = str_int uid"
proof -
  have l6: "length (generate_random_number six) = 6" using assms(2) by (rule length_six_digit)
  have l5: "length (generate_random_number five) = 5" using assms(3) by (rule length_five_digit)
  show ?thesis
    unfolding strip_prefix_generated otp_from_link_def peer_id_from_link_def slice_def slice_to_end_def
    using l6 l5 assms(1) by simp
qed

lemma generated_token_length:
  assumes "length otp_v = 4" and "random_number_range 6 six" and "random_number_range 5 five"
  shows "length (strip_link_prefix (generate_connection_string otp_v uid six five))
           = 15 + length (str_int uid)"
proof -
  have l6: "length (generate_random_number six) = 6" using assms(2) by (rule length_six_digit)
  have l5: "length (generate_random_number five) = 5" using assms(3) by (rule length_five_digit)
  show ?thesis
    unfolding strip_prefix_generated using l6 l5 assms(1) by simp
qed

lemma length_str_int_short:
  assumes "0 \<le> uid" and "uid < 10000"
  shows "length (str_int uid) \<le> 4"
proof -
  from assms have "nat uid < 10 ^ Suc 3" by simp
  then have "length (str_nat (nat uid)) \<le> Suc 3" by (rule length_str_nat_le)
  with assms(1) show ?thesis by (simp add: str_int_def)
qed

lemma length_str_int_long:
  assumes "10000 \<le> uid"
  shows "5 \<le> length (str_int uid)"
proof -
  from assms have "10 ^ 4 \<le> nat uid" by simp
  then have "Suc 4 \<le> length (str_nat (nat uid))" by (rule length_str_nat_ge)
  with assms show ?thesis by (simp add: str_int_def)
qed

text \<open>
  The guard of \<^verbatim>\<open>verify_private_link\<close> lets the generated string through when the issuer id
  has five digits or more.
\<close>

lemma generated_token_of_long_id_passes_guard:
  assumes "length otp_v = 4" and "random_number_range 6 six" and "random_number_range 5 five"
      and "10000 \<le> uid"
  shows "20 \<le> length (strip_link_prefix (generate_connection_string otp_v uid six five))"
proof -
  have "length (strip_link_prefix (generate_connection_string otp_v uid six five))
          = 15 + length (str_int uid)"
    using assms(1-3) by (rule generated_token_length)
  moreover have "5 \<le> length (str_int uid)"
    using assms(4) by (rule length_str_int_long)
  ultimately show ?thesis by simp
qed

text \<open>
  C9. Every string made by \<^verbatim>\<open>generate_connection_string\<close> must be parsed back by
  \<^verbatim>\<open>verify_private_link\<close> into its OTP and its issuer id. The parser runs its two slices only
  behind the guard \<^verbatim>\<open>len(link_text) < 20\<close>, and the string made for an issuer id from 0 to 9999
  has at most 19 characters after the prefix: for every such id, every OTP of four characters
  and every random padding, the parser answers \<^verbatim>\<open>Invalid private link format\<close> and recovers
  neither the OTP nor the issuer id.
\<close>

theorem generated_token_of_short_id_rejected:
  assumes "length otp_v = 4" and "random_number_range 6 six" and "random_number_range 5 five"
      and "0 \<le> uid" and "uid < 10000"
  shows "verify_private_link db (generate_connection_string otp_v uid six five) claimant
           = (Invalid_format, db)"
proof -
  have "length (strip_link_prefix (generate_connection_string otp_v uid six five))
          = 15 + length (str_int uid)"
    using assms(1-3) by (rule generated_token_length)
  moreover have "length (str_int uid) \<le> 4"
    using assms(4,5) by (rule length_str_int_short)
  ultimately have "length (strip_link_prefix (generate_connection_string otp_v uid six five)) < 20"
    by simp
  then show ?thesis
    by (simp add: verify_private_link_def Let_def)
qed

theorem generated_token_of_short_id_rejected_witness:
  "verify_private_link
     [\<lparr>user_id = 9999, peer_id = Some [], status = ''PRIVATE'', timer = 5760, otp = Some ''4821'', otp_exp = None, anony_name = ''Hidden12AB''\<rparr>]
     (generate_connection_string ''4821'' 9999 123456 54321) 400
   = (Invalid_format,
     [\<lparr>user_id = 9999, peer_id = Some [], status = ''PRIVATE'', timer = 5760, otp = Some ''4821'', otp_exp = None, anony_name = ''Hidden12AB''\<rparr>])"
proof -
  have h1: "length ''4821'' = 4" by simp
  have h2: "random_number_range 6 123456" by (simp add: random_number_range_def)
  have h3: "random_number_range 5 54321" by (simp add: random_number_range_def)
  have h4: "(0::int) \<le> 9999" by simp
  have h5: "(9999::int) < 10000" by simp
  show ?thesis
    by (rule generated_token_of_short_id_rejected [OF h1 h2 h3 h4 h5])
qed

section \<open>Reading a row after an update\<close>

lemma select_user_update_same:
  assumes "\<And>r. user_id (f r) = user_id r"
  shows "select_user (update_users db uid f) uid = map_option f (select_user db uid)"
  using assms by (induction db) (simp_all add: select_user_def update_users_def)

lemma select_user_update_other:
  assumes "\<And>r. user_id (f r) = user_id r" and "v \<noteq> uid"
  shows "select_user (update_users db uid f) v = select_user db v"
  using assms by (induction db) (simp_all add: select_user_def update_users_def)

lemma select_user_id: "select_user db uid = Some u \<Longrightarrow> user_id u = uid"
  by (induction db) (auto simp: select_user_def split: if_splits)

lemma select_user_mem: "select_user db uid = Some u \<Longrightarrow> u \<in> set db"
  by (induction db) (auto simp: select_user_def split: if_splits)

section \<open>C10: forward changes the status only\<close>

text \<open>
  C10. For every user whose status is \<^verbatim>\<open>RANDOM\<close>, \<^verbatim>\<open>handle_forward_button\<close> sets the \<^verbatim>\<open>STATUS\<close>
  of that user's row to \<^verbatim>\<open>OPEN\<close> and changes nothing else: the \<^verbatim>\<open>PEER_ID\<close> of the row still
  names the former partner, and the row of every other user, the former partner's
  included, is what it was.
\<close>

theorem forward_changes_only_status:
  assumes "select_user db uid = Some u" and "status u = ''RANDOM''"
  shows "handle_forward_button db uid =
           (Status_changed, map (\<lambda>r. if user_id r = uid then r\<lparr>status := ''OPEN''\<rparr> else r) db)
       \<and> select_user (snd (handle_forward_button db uid)) uid = Some (u\<lparr>status := ''OPEN''\<rparr>)
       \<and> peer_id (u\<lparr>status := ''OPEN''\<rparr>) = peer_id u
       \<and> (\<forall>v. v \<noteq> uid \<longrightarrow> select_user (snd (handle_forward_button db uid)) v = select_user db v)"
proof -
  have st: "get_user_status db uid = Some ''RANDOM''"
    using assms by (simp add: get_user_status_def)
  have eq: "handle_forward_button db uid = (Status_changed, update_users db uid (\<lambda>r. r\<lparr>status := ''OPEN''\<rparr>))"
    using st by (simp add: handle_forward_button_def update_user_status_def)
  have same: "select_user (update_users db uid (\<lambda>r. r\<lparr>status := ''OPEN''\<rparr>)) uid = Some (u\<lparr>status := ''OPEN''\<rparr>)"
    using assms(1) by (simp add: select_user_update_same)
  have other: "\<And>v. v \<noteq> uid \<Longrightarrow>
      select_user (update_users db uid (\<lambda>r. r\<lparr>status := ''OPEN''\<rparr>)) v = select_user db v"
    by (simp add: select_user_update_other)
  show ?thesis
    using eq same other by (simp add: update_users_def)
qed

theorem forward_changes_only_status_witness:
  "handle_forward_button [\<lparr>user_id = 100, peer_id = Some ''200'', status = ''RANDOM'', timer = 120, otp = Some [], otp_exp = None, anony_name = ''Hidden12AB''\<rparr>,
      \<lparr>user_id = 200, peer_id = Some ''100'', status = ''RANDOM'', timer = 120, otp = Some [], otp_exp = None, anony_name = ''Secret9ZQ1''\<rparr>] 100
   = (Status_changed, [\<lparr>user_id = 100, peer_id = Some ''200'', status = ''OPEN'', timer = 120, otp = Some [], otp_exp = None, anony_name = ''Hidden12AB''\<rparr>,
      \<lparr>user_id = 200, peer_id = Some ''100'', status = ''RANDOM'', timer = 120, otp = Some [], otp_exp = None, anony_name = ''Secret9ZQ1''\<rparr>])"
  using forward_changes_only_status [of
      "[\<lparr>user_id = 100, peer_id = Some ''200'', status = ''RANDOM'', timer = 120, otp = Some [], otp_exp = None, anony_name = ''Hidden12AB''\<rparr>,
      \<lparr>user_id = 200, peer_id = Some ''100'', status = ''RANDOM'', timer = 120, otp = Some [], otp_exp = None, anony_name = ''Secret9ZQ1''\<rparr>]"
      100 "\<lparr>user_id = 100, peer_id = Some ''200'', status = ''RANDOM'', timer = 120, otp = Some [], otp_exp = None, anony_name = ''Hidden12AB''\<rparr>"]
  by (simp add: select_user_def)


section \<open>C8: the random match scenario\<close>

lemma nth_mod_mem: "xs \<noteq> [] \<Longrightarrow> xs ! (k mod length xs) \<in> set xs"
  by simp

lemma find_random_partner_waiting:
  assumes "select_user db uid = Some u" and "status u \<in> {''OPEN'', ''IDLE''}"
      and "available_users db uid = []"
  shows "find_random_partner db uid pick =
           (Waiting, if status u \<noteq> ''OPEN'' then update_users db uid (\<lambda>r. r\<lparr>status := ''OPEN''\<rparr>) else db)"
  using assms by (auto simp add: find_random_partner_def available_users_def Let_def)

lemma find_random_partner_success:
  assumes "select_user db uid = Some u" and "status u \<in> {''OPEN'', ''IDLE''}"
      and "available_users db uid \<noteq> []"
  shows "find_random_partner db uid pick =
           (Random_success (available_users db uid ! (pick mod length (available_users db uid))),
            update_users
              (update_users db uid
                 (\<lambda>r. r\<lparr>peer_id := Some (str_int (available_users db uid ! (pick mod length (available_users db uid)))),
                         status := ''RANDOM''\<rparr>))
              (available_users db uid ! (pick mod length (available_users db uid)))
              (\<lambda>r. r\<lparr>peer_id := Some (str_int uid), status := ''RANDOM''\<rparr>))"
  using assms by (auto simp add: find_random_partner_def available_users_def Let_def)

lemma partner_is_candidate:
  assumes "fst (find_random_partner db uid pick) = Random_success p"
  shows "p \<in> set (available_users db uid)"
proof (cases "select_user db uid")
  case None
  with assms show ?thesis by (simp add: find_random_partner_def)
next
  case (Some u)
  show ?thesis
  proof (cases "status u \<in> {''OPEN'', ''IDLE''}")
    case False
    with Some assms show ?thesis by (auto simp add: find_random_partner_def)
  next
    case True
    show ?thesis
    proof (cases "available_users db uid = []")
      case empty: True
      from find_random_partner_waiting [OF Some True empty] assms show ?thesis by simp
    next
      case nonempty: False
      from find_random_partner_success [OF Some True nonempty] assms
      have "p = available_users db uid ! (pick mod length (available_users db uid))" by simp
      with nonempty show ?thesis using nth_mod_mem by metis
    qed
  qed
qed

lemma available_not_requester: "p \<in> set (available_users db uid) \<Longrightarrow> p \<noteq> uid"
  by (auto simp add: available_users_def)

lemma partner_not_requester:
  "fst (find_random_partner db uid pick) = Random_success p \<Longrightarrow> p \<noteq> uid"
  using partner_is_candidate available_not_requester by blast

lemma available_empty:
  assumes "\<forall>r \<in> set db. status r = ''OPEN'' \<longrightarrow> user_id r = a"
  shows "available_users db a = []"
  using assms by (auto simp add: available_users_def filter_empty_conv)

lemma available_after_open:
  assumes "\<forall>r \<in> set db. status r = ''OPEN'' \<longrightarrow> user_id r = a" and "b \<noteq> a"
  shows "set (available_users (update_users db a (\<lambda>r. r\<lparr>status := ''OPEN''\<rparr>)) b) \<subseteq> {a}"
  using assms by (auto simp add: available_users_def update_users_def split: if_splits)

lemma available_unchanged:
  assumes "\<forall>r \<in> set db. status r = ''OPEN'' \<longrightarrow> user_id r = a"
  shows "set (available_users db b) \<subseteq> {a}"
  using assms by (auto simp add: available_users_def)

lemma available_has_open:
  assumes "select_user db a = Some u" and "status u = ''OPEN''" and "b \<noteq> a"
  shows "a \<in> set (available_users db b)"
proof -
  have "u \<in> set db" "user_id u = a"
    using assms(1) by (simp_all add: select_user_mem select_user_id)
  with assms(2,3) show ?thesis
    by (force simp add: available_users_def)
qed


text \<open>
  C8. A user \<open>a\<close> whose status is \<^verbatim>\<open>OPEN\<close> or \<^verbatim>\<open>IDLE\<close> and who calls \<^verbatim>\<open>find_random_partner\<close>
  while no other user has status \<^verbatim>\<open>OPEN\<close> gets the result \<^verbatim>\<open>waiting\<close> and ends with status
  \<^verbatim>\<open>OPEN\<close>. A second requester \<open>b\<close> (status \<^verbatim>\<open>OPEN\<close> or \<^verbatim>\<open>IDLE\<close>) then gets \<^verbatim>\<open>success\<close> with
  partner \<open>a\<close>, whatever \<^verbatim>\<open>random.choice\<close> draws, and both rows have status \<^verbatim>\<open>RANDOM\<close> and the
  other's id as \<^verbatim>\<open>PEER_ID\<close>. In no table is the partner of a successful call the requester.
\<close>

theorem random_match_scenario:
  assumes "select_user db a = Some ua" and "status ua \<in> {''OPEN'', ''IDLE''}"
      and "\<forall>r \<in> set db. status r = ''OPEN'' \<longrightarrow> user_id r = a"
      and "select_user db b = Some ub" and "b \<noteq> a" and "status ub \<in> {''OPEN'', ''IDLE''}"
  shows "(let db1 = snd (find_random_partner db a pick);
              db2 = snd (find_random_partner db1 b pick')
          in fst (find_random_partner db a pick) = Waiting
           \<and> get_user_status db1 a = Some ''OPEN''
           \<and> fst (find_random_partner db1 b pick') = Random_success a
           \<and> map_option (\<lambda>u. (status u, peer_id u)) (select_user db2 a) = Some (''RANDOM'', Some (str_int b))
           \<and> map_option (\<lambda>u. (status u, peer_id u)) (select_user db2 b) = Some (''RANDOM'', Some (str_int a)))
       \<and> (\<forall>db' u k p. fst (find_random_partner db' u k) = Random_success p \<longrightarrow> p \<noteq> u)"
proof -
  define db1 where "db1 = (if status ua \<noteq> ''OPEN'' then update_users db a (\<lambda>r. r\<lparr>status := ''OPEN''\<rparr>) else db)"
  have first: "find_random_partner db a pick = (Waiting, db1)"
    unfolding db1_def
    by (rule find_random_partner_waiting [OF assms(1,2) available_empty [OF assms(3)]])
  have sel_a: "select_user db1 a = Some (ua\<lparr>status := ''OPEN''\<rparr>)"
    using assms(1) by (auto simp add: db1_def select_user_update_same)
  have sel_b: "select_user db1 b = Some ub"
    using assms(4,5) by (simp add: db1_def select_user_update_other)
  have sub: "set (available_users db1 b) \<subseteq> {a}"
    unfolding db1_def using available_after_open [OF assms(3,5)] available_unchanged [OF assms(3)]
    by simp
  have mem: "a \<in> set (available_users db1 b)"
    by (rule available_has_open [OF sel_a _ assms(5)]) simp
  then have nonempty: "available_users db1 b \<noteq> []" by auto
  have "available_users db1 b ! (pick' mod length (available_users db1 b)) \<in> set (available_users db1 b)"
    using nonempty by (rule nth_mod_mem)
  with sub have partner: "available_users db1 b ! (pick' mod length (available_users db1 b)) = a"
    by auto
  define db2 where "db2 = update_users
              (update_users db1 b (\<lambda>r. r\<lparr>peer_id := Some (str_int a), status := ''RANDOM''\<rparr>))
              a (\<lambda>r. r\<lparr>peer_id := Some (str_int b), status := ''RANDOM''\<rparr>)"
  have second: "find_random_partner db1 b pick' = (Random_success a, db2)"
    using find_random_partner_success [OF sel_b assms(6) nonempty, of pick']
    unfolding partner db2_def .
  have a_after: "select_user db2 a
      = Some (ua\<lparr>status := ''OPEN'', peer_id := Some (str_int b), status := ''RANDOM''\<rparr>)"
    using sel_a assms(5) by (simp add: db2_def select_user_update_same select_user_update_other)
  have b_after: "select_user db2 b
      = Some (ub\<lparr>peer_id := Some (str_int a), status := ''RANDOM''\<rparr>)"
    using sel_b assms(5) by (simp add: db2_def select_user_update_same select_user_update_other)
  have never: "\<forall>db' u k p. fst (find_random_partner db' u k) = Random_success p \<longrightarrow> p \<noteq> u"
    using partner_not_requester by blast
  show ?thesis
    using first second sel_a a_after b_after never
    by (simp add: get_user_status_def)
qed

theorem random_match_scenario_witness:
  "fst (find_random_partner
       [\<lparr>user_id = 100, peer_id = Some [], status = ''IDLE'', timer = 120, otp = Some [], otp_exp = None, anony_name = ''Hidden12AB''\<rparr>,
        \<lparr>user_id = 200, peer_id = Some [], status = ''IDLE'', timer = 120, otp = Some [], otp_exp = None, anony_name = ''Secret9ZQ1''\<rparr>] 100 0) = Waiting
   \<and> fst (find_random_partner (snd (find_random_partner
       [\<lparr>user_id = 100, peer_id = Some [], status = ''IDLE'', timer = 120, otp = Some [], otp_exp = None, anony_name = ''Hidden12AB''\<rparr>,
        \<lparr>user_id = 200, peer_id = Some [], status = ''IDLE'', timer = 120, otp = Some [], otp_exp = None, anony_name = ''Secret9ZQ1''\<rparr>] 100 0)) 200 0)
       = Random_success 100"
proof -
  let ?u1 = "\<lparr>user_id = 100, peer_id = Some [], status = ''IDLE'', timer = 120, otp = Some [], otp_exp = None, anony_name = ''Hidden12AB''\<rparr>"
  let ?u2 = "\<lparr>user_id = 200, peer_id = Some [], status = ''IDLE'', timer = 120, otp = Some [], otp_exp = None, anony_name = ''Secret9ZQ1''\<rparr>"
  have h1: "select_user [?u1, ?u2] 100 = Some ?u1" by (simp add: select_user_def)
  have h2: "status ?u1 \<in> {''OPEN'', ''IDLE''}" by simp
  have h3: "\<forall>r \<in> set [?u1, ?u2]. status r = ''OPEN'' \<longrightarrow> user_id r = 100" by simp
  have h4: "select_user [?u1, ?u2] 200 = Some ?u2" by (simp add: select_user_def)
  have h5: "(200::int) \<noteq> 100" by simp
  have h6: "status ?u2 \<in> {''OPEN'', ''IDLE''}" by simp
  from random_match_scenario [OF h1 h2 h3 h4 h5 h6, of 0 0]
  show ?thesis unfolding Let_def by blast
qed


section \<open>Decimal texts and SQLite's integer conversion\<close>

lemma py_ord_digit_char: "d < 10 \<Longrightarrow> py_ord (digit_char d) = 48 + d"
  by (simp add: py_ord_def digit_char_def)

lemma isdigit_digit_char: "d < 10 \<Longrightarrow> isdigit (digit_char d)"
  by (simp add: isdigit_def py_ord_digit_char)

lemma digit_value_digit_char: "d < 10 \<Longrightarrow> digit_value (digit_char d) = d"
  by (simp add: digit_value_def py_ord_digit_char)

lemma str_nat_digits: "list_all isdigit (str_nat n) \<and> str_nat n \<noteq> []"
proof (induction n rule: str_nat.induct)
  case (1 n)
  show ?case
  proof (cases "n < 10")
    case True
    then show ?thesis by (subst (1 2) str_nat.simps) (simp add: isdigit_digit_char)
  next
    case False
    with 1 show ?thesis by (subst (1 2) str_nat.simps) (simp add: isdigit_digit_char)
  qed
qed

lemma digits_value_snoc: "digits_value (xs @ [c]) = 10 * digits_value xs + digit_value c"
  by (simp add: digits_value_def)

lemma digits_value_str_nat: "digits_value (str_nat n) = n"
proof (induction n rule: str_nat.induct)
  case (1 n)
  show ?case
  proof (cases "n < 10")
    case True
    then show ?thesis
      by (subst str_nat.simps) (simp add: digits_value_def digit_value_digit_char)
  next
    case False
    with 1 show ?thesis
      by (subst str_nat.simps) (simp add: digits_value_snoc digit_value_digit_char)
  qed
qed

lemma isdigit_not_sign: "isdigit c \<Longrightarrow> c \<noteq> CHR ''-'' \<and> c \<noteq> CHR ''+''"
  by (auto simp add: isdigit_def py_ord_def)

lemma isdigit_not_space: "isdigit c \<Longrightarrow> \<not> sql_isspace c"
  by (auto simp add: isdigit_def sql_isspace_def)

lemma takeWhile_all_digits: "list_all isdigit s \<Longrightarrow> takeWhile isdigit s = s"
  by (simp add: list_all_iff)

lemma dropWhile_all_digits: "list_all isdigit s \<Longrightarrow> dropWhile isdigit s = []"
  by (simp add: list_all_iff)

lemma scan_sign_digits:
  assumes "list_all isdigit s" and "s \<noteq> []"
  shows "scan_sign s = (False, s)"
proof (cases s)
  case Nil
  with assms(2) show ?thesis by simp
next
  case (Cons c cs)
  with assms(1) have "isdigit c" by simp
  then have "c \<noteq> CHR ''-''" "c \<noteq> CHR ''+''" using isdigit_not_sign by auto
  with Cons show ?thesis by (simp add: scan_sign_def)
qed

lemma dropWhile_space_digits:
  assumes "list_all isdigit s"
  shows "dropWhile sql_isspace s = s"
proof (cases s)
  case Nil
  then show ?thesis by simp
next
  case (Cons c cs)
  with assms have "isdigit c" by simp
  then have "\<not> sql_isspace c" by (rule isdigit_not_space)
  with Cons show ?thesis by simp
qed

lemma scan_literal_digits:
  assumes "list_all isdigit s" and "s \<noteq> []"
  shows "scan_literal s = Some \<lparr>negative = False, int_digits = s, has_point = False,
           frac_digits = [], has_exponent = False, exp_negative = False, exp_digits = []\<rparr>"
  using assms
  by (simp add: scan_literal_def dropWhile_space_digits scan_sign_digits takeWhile_all_digits
      dropWhile_all_digits scan_fraction_def scan_exponent_def)

lemma scan_literal_minus_digits:
  assumes "list_all isdigit s" and "s \<noteq> []"
  shows "scan_literal (CHR ''-'' # s) = Some \<lparr>negative = True, int_digits = s, has_point = False,
           frac_digits = [], has_exponent = False, exp_negative = False, exp_digits = []\<rparr>"
proof -
  have "\<not> sql_isspace CHR ''-''" by (simp add: sql_isspace_def py_ord_def)
  then have "dropWhile sql_isspace (CHR ''-'' # s) = CHR ''-'' # s" by simp
  then show ?thesis
    using assms
    by (simp add: scan_literal_def scan_sign_def takeWhile_all_digits dropWhile_all_digits
        scan_fraction_def scan_exponent_def)
qed

lemma sql_integer_digits:
  assumes "list_all isdigit s" and "s \<noteq> []"
  shows "sql_integer s
           = (if int64_range (int (digits_value s)) then Some (int (digits_value s)) else None)"
  using assms by (simp add: sql_integer_def scan_literal_digits Let_def)

lemma sql_integer_minus_digits:
  assumes "list_all isdigit s" and "s \<noteq> []"
  shows "sql_integer (CHR ''-'' # s)
           = (if int64_range (- int (digits_value s)) then Some (- int (digits_value s)) else None)"
  using assms by (simp add: sql_integer_def scan_literal_minus_digits Let_def)

text \<open>The decimal text of an id is read back as that id, as long as the id fits 64 bits.\<close>

lemma sql_integer_str_int: "sql_integer (str_int i) = (if int64_range i then Some i else None)"
proof (cases "i < 0")
  case True
  then show ?thesis
    using str_nat_digits [of "nat (- i)"]
    by (simp add: str_int_def sql_integer_minus_digits digits_value_str_nat)
next
  case False
  then show ?thesis
    using str_nat_digits [of "nat i"]
    by (simp add: str_int_def sql_integer_digits digits_value_str_nat)
qed

lemma str_int_nonempty: "str_int i \<noteq> []"
  using str_nat_digits by (simp add: str_int_def)

lemma select_user_text_str_int:
  assumes "select_user_text db (str_int i) = Some u"
  shows "user_id u = i"
proof (cases "int64_range i")
  case True
  with assms have "select_user db i = Some u"
    by (simp add: select_user_text_def sql_integer_str_int)
  then show ?thesis by (rule select_user_id)
next
  case False
  with assms show ?thesis
    by (simp add: select_user_text_def sql_integer_str_int)
qed

text \<open>
  Some texts as SQLite compares them with \<^verbatim>\<open>USER_ID\<close>: white space around the number is
  ignored, a real number that is whole converts to that whole number, and a text that is not a
  number, or not a whole one, converts to nothing.
\<close>

lemma sql_integer_integer_texts:
  "sql_integer '' 30000'' = Some 30000"
  "sql_integer ''30000 '' = Some 30000"
  "sql_integer ''+030000'' = Some 30000"
  "sql_integer ''-12'' = Some (- 12)"
  "sql_integer ''9223372036854775808'' = None"
  by (simp_all add: sql_integer_def scan_literal_def scan_sign_def scan_fraction_def
        scan_exponent_def sql_isspace_def isdigit_def py_ord_def digits_value_def
        digit_value_def int64_range_def)

lemma sql_integer_real_texts:
  "sql_integer ''3.0e4'' = Some 30000"
  "sql_integer ''200e00'' = Some 200"
  "sql_integer ''30000.0'' = Some 30000"
  "sql_integer ''.5e1'' = Some 5"
  "sql_integer ''30e-1'' = Some 3"
  "sql_integer ''3e-1'' = None"
  "sql_integer ''3.5'' = None"
  by code_simp+

lemma sql_integer_other_texts:
  "sql_integer [] = None"
  "sql_integer ''300x'' = None"
  "sql_integer ''1e'' = None"
  by code_simp+

section \<open>Evaluating the model on concrete tokens\<close>

lemma digit_char_eval:
  "digit_char 0 = CHR ''0''" "digit_char 1 = CHR ''1''" "digit_char (Suc 0) = CHR ''1''"
  "digit_char 2 = CHR ''2''" "digit_char 3 = CHR ''3''" "digit_char 4 = CHR ''4''"
  "digit_char 5 = CHR ''5''" "digit_char 6 = CHR ''6''" "digit_char 7 = CHR ''7''"
  "digit_char 8 = CHR ''8''" "digit_char 9 = CHR ''9''"
  by code_simp+

lemmas token_eval = generate_connection_string_def generate_random_number_def str_nat.simps
  str_int_def digit_char_eval strip_link_prefix_def startswith_def otp_from_link_def
  peer_id_from_link_def slice_def slice_to_end_def

lemmas select_text_eval = select_user_text_def sql_integer_digits int64_range_def isdigit_def
  py_ord_def digits_value_def digit_value_def select_user_def

section \<open>C7: verifying a private link\<close>

text \<open>No call of \<^verbatim>\<open>verify_private_link\<close>, whatever its result, changes the table.\<close>

lemma verify_never_writes: "snd (verify_private_link db link_text uid) = db"
  by (simp add: verify_private_link_def Let_def split: option.split)

text \<open>
  For a link of at least 20 characters after the \<^verbatim>\<open>/92\<close> prefix the code does what C7 says:
  when the issuer text finds a row, the OTP window equals the OTP stored in that row and the
  issuer is another user than the claimant, the result is \<^verbatim>\<open>confirmation_needed\<close> with the
  issuer text as \<^verbatim>\<open>peer_id\<close>.
\<close>

lemma verify_confirms_long_token:
  assumes "20 \<le> length (strip_link_prefix link_text)"
      and "select_user_text db (peer_id_from_link (strip_link_prefix link_text)) = Some issuer"
      and "otp issuer = Some (otp_from_link (strip_link_prefix link_text))"
      and "user_id issuer \<noteq> uid"
  shows "verify_private_link db link_text uid
           = (Confirmation_needed (peer_id_from_link (strip_link_prefix link_text)), db)"
proof -
  have "otp_from_link (strip_link_prefix link_text) \<noteq> []"
    using assms(1) by (auto simp add: otp_from_link_def slice_def)
  with assms(3) have live: "truthy (otp issuer)"
    by (simp add: truthy_def)
  have other: "str_int uid \<noteq> peer_id_from_link (strip_link_prefix link_text)"
  proof
    assume "str_int uid = peer_id_from_link (strip_link_prefix link_text)"
    with assms(2) have "select_user_text db (str_int uid) = Some issuer" by simp
    then have "user_id issuer = uid" by (rule select_user_text_str_int)
    with assms(4) show False by simp
  qed
  show ?thesis
    using assms(1-3) live other by (simp add: verify_private_link_def Let_def)
qed

text \<open>
  So the token generated for an issuer whose id has five digits or more, who is in the table
  and holds the OTP of the token, is answered with \<^verbatim>\<open>confirmation_needed\<close> and the issuer's id
  for every other claimant.
\<close>

lemma verify_confirms_generated_token:
  assumes "length otp_v = 4" and "random_number_range 6 six" and "random_number_range 5 five"
      and "10000 \<le> issuer_id" and "int64_range issuer_id"
      and "select_user db issuer_id = Some issuer"
      and "otp issuer = Some otp_v"
      and "issuer_id \<noteq> claimant"
  shows "verify_private_link db (generate_connection_string otp_v issuer_id six five) claimant
           = (Confirmation_needed (str_int issuer_id), db)"
proof -
  let ?l = "generate_connection_string otp_v issuer_id six five"
  have guard: "20 \<le> length (strip_link_prefix ?l)"
    using assms(1-4) by (rule generated_token_of_long_id_passes_guard)
  have slices: "otp_from_link (strip_link_prefix ?l) = otp_v
       \<and> peer_id_from_link (strip_link_prefix ?l) = str_int issuer_id"
    using assms(1-3) by (rule slices_recover_otp_and_issuer)
  have found: "select_user_text db (peer_id_from_link (strip_link_prefix ?l)) = Some issuer"
    using slices assms(5,6) by (simp add: select_user_text_def sql_integer_str_int)
  have held: "otp issuer = Some (otp_from_link (strip_link_prefix ?l))"
    using slices assms(7) by simp
  have "user_id issuer = issuer_id"
    using assms(6) by (rule select_user_id)
  with assms(8) have other: "user_id issuer \<noteq> claimant" by simp
  from verify_confirms_long_token [OF guard found held other] slices
  show ?thesis by simp
qed

text \<open>
  C7. For every token whose OTP equals the stored OTP of its issuer, the issuer existing and
  being another user than the claimant, \<^verbatim>\<open>verify_private_link\<close> must answer
  \<^verbatim>\<open>confirmation_needed\<close> with the issuer's id. It does not for an issuer whose id has fewer
  than five digits: the token that \<^verbatim>\<open>generate_connection_string\<close> makes for issuer 300 has 18
  characters after the prefix, the guard \<^verbatim>\<open>len(link_text) < 20\<close> refuses it, and claimant 400
  gets \<^verbatim>\<open>Invalid private link format\<close> although the issuer text of the token is that of 300,
  it finds the row of user 300, and that row holds the OTP of the token.
\<close>

theorem verify_rejects_matching_token:
  "select_user_text
     [\<lparr>user_id = 300, peer_id = Some [], status = ''PRIVATE'', timer = 5760, otp = Some ''4821'', otp_exp = None, anony_name = ''Hidden12AB''\<rparr>]
     (peer_id_from_link (strip_link_prefix (generate_connection_string ''4821'' 300 123456 54321)))
     = Some \<lparr>user_id = 300, peer_id = Some [], status = ''PRIVATE'', timer = 5760, otp = Some ''4821'', otp_exp = None, anony_name = ''Hidden12AB''\<rparr>
   \<and> peer_id_from_link (strip_link_prefix (generate_connection_string ''4821'' 300 123456 54321)) = str_int 300
   \<and> otp_from_link (strip_link_prefix (generate_connection_string ''4821'' 300 123456 54321)) = ''4821''
   \<and> verify_private_link
     [\<lparr>user_id = 300, peer_id = Some [], status = ''PRIVATE'', timer = 5760, otp = Some ''4821'', otp_exp = None, anony_name = ''Hidden12AB''\<rparr>]
     (generate_connection_string ''4821'' 300 123456 54321) 400
     = (Invalid_format,
     [\<lparr>user_id = 300, peer_id = Some [], status = ''PRIVATE'', timer = 5760, otp = Some ''4821'', otp_exp = None, anony_name = ''Hidden12AB''\<rparr>])"
proof -
  let ?l = "generate_connection_string ''4821'' 300 123456 54321"
  have p: "peer_id_from_link (strip_link_prefix ?l) = ''300''" by (simp add: token_eval)
  have o: "otp_from_link (strip_link_prefix ?l) = ''4821''" by (simp add: token_eval)
  have n: "length (strip_link_prefix ?l) = 18" by (simp add: token_eval)
  show ?thesis
    unfolding verify_private_link_def Let_def p o n
    by (simp add: select_text_eval str_int_def str_nat.simps digit_char_eval)
qed

theorem verify_rejects_matching_token_witness:
  "fst (verify_private_link
     [\<lparr>user_id = 300, peer_id = Some [], status = ''PRIVATE'', timer = 5760, otp = Some ''4821'', otp_exp = None, anony_name = ''Hidden12AB''\<rparr>]
     (generate_connection_string ''4821'' 300 123456 54321) 400)
   = Invalid_format"
proof -
  let ?db = "[\<lparr>user_id = 300, peer_id = Some [], status = ''PRIVATE'', timer = 5760, otp = Some ''4821'', otp_exp = None, anony_name = ''Hidden12AB''\<rparr>]"
  let ?l = "generate_connection_string ''4821'' 300 123456 54321"
  from verify_rejects_matching_token
  have "verify_private_link ?db ?l 400 = (Invalid_format, ?db)" by blast
  then show ?thesis by (simp only: fst_conv)
qed

section \<open>C2: asking twice for a private link\<close>

text \<open>
  C2, as the code has it. For a user who holds a live OTP and is not already in a private
  connection, two calls of \<^verbatim>\<open>check_user_status\<close> in succession both answer \<^verbatim>\<open>otp_exists\<close> with
  the stored OTP, leave the table as it is, and each return the string that
  \<^verbatim>\<open>generate_connection_string\<close> builds from that OTP, the user id and fresh random digits:
  the two strings carry the same OTP and issuer id and differ at most in their padding.
\<close>

theorem issue_link_reuses_otp:
  assumes "select_user db uid = Some u" and "otp u = Some e" and "live_otp (Some e)"
      and "\<not> (truthy (peer_id u) \<and> status u = ''PRIVATE'')"
  shows "check_user_status db uid r six five
           = (Otp_exists e (generate_connection_string e uid six five), db)
       \<and> check_user_status (snd (check_user_status db uid r six five)) uid r' six' five'
           = (Otp_exists e (generate_connection_string e uid six' five'), db)"
proof -
  have call: "\<And>r six five. check_user_status db uid r six five
           = (Otp_exists e (generate_connection_string e uid six five), db)"
    using assms by (simp add: check_user_status_def)
  show ?thesis by (simp add: call)
qed

theorem issue_link_reuses_otp_witness:
  "check_user_status
     [\<lparr>user_id = 300, peer_id = Some [], status = ''PRIVATE'', timer = 5760, otp = Some ''4821'', otp_exp = None, anony_name = ''Hidden12AB''\<rparr>]
     300 1111 123456 54321
   = (Otp_exists ''4821'' (generate_connection_string ''4821'' 300 123456 54321),
     [\<lparr>user_id = 300, peer_id = Some [], status = ''PRIVATE'', timer = 5760, otp = Some ''4821'', otp_exp = None, anony_name = ''Hidden12AB''\<rparr>])"
proof -
  let ?u = "\<lparr>user_id = 300, peer_id = Some [], status = ''PRIVATE'', timer = 5760, otp = Some ''4821'', otp_exp = None, anony_name = ''Hidden12AB''\<rparr>"
  have h1: "select_user [?u] 300 = Some ?u" by (simp add: select_user_def)
  have h2: "otp ?u = Some ''4821''" by simp
  have h3: "live_otp (Some ''4821'')" by (simp add: live_otp_def strip_def isspace_def py_ord_def)
  have h4: "\<not> (truthy (peer_id ?u) \<and> status ?u = ''PRIVATE'')" by (simp add: truthy_def)
  from issue_link_reuses_otp [OF h1 h2 h3 h4, of 1111 123456 54321 1111 123456 54321]
  show ?thesis by blast
qed

text \<open>
  C2 as stated fails: the connection string is built anew at each call, so the two calls
  return different strings as soon as the random digits differ.
\<close>

theorem issue_link_token_counterexample:
  "check_user_status
     [\<lparr>user_id = 300, peer_id = Some [], status = ''PRIVATE'', timer = 5760, otp = Some ''4821'', otp_exp = None, anony_name = ''Hidden12AB''\<rparr>]
     300 1111 123456 54321
   = (Otp_exists ''4821'' ''/92123456482130054321'',
     [\<lparr>user_id = 300, peer_id = Some [], status = ''PRIVATE'', timer = 5760, otp = Some ''4821'', otp_exp = None, anony_name = ''Hidden12AB''\<rparr>])
   \<and> check_user_status
     (snd (check_user_status
     [\<lparr>user_id = 300, peer_id = Some [], status = ''PRIVATE'', timer = 5760, otp = Some ''4821'', otp_exp = None, anony_name = ''Hidden12AB''\<rparr>]
     300 1111 123456 54321))
     300 2222 654321 12345
   = (Otp_exists ''4821'' ''/92654321482130012345'',
     [\<lparr>user_id = 300, peer_id = Some [], status = ''PRIVATE'', timer = 5760, otp = Some ''4821'', otp_exp = None, anony_name = ''Hidden12AB''\<rparr>])
   \<and> ''/92123456482130054321'' \<noteq> ''/92654321482130012345''
   \<and> random_number_range 6 123456 \<and> random_number_range 5 54321
   \<and> random_number_range 6 654321 \<and> random_number_range 5 12345"
  by (simp add: check_user_status_def select_user_def truthy_def live_otp_def strip_def isspace_def
      py_ord_def token_eval random_number_range_def)

section \<open>C4: the OTP cleanup task\<close>

text \<open>
  C4, as the code has it. When \<^verbatim>\<open>clean_otp\<close> runs for an existing user, it leaves the table
  untouched if the status is one of \<^verbatim>\<open>RANDOM\<close>, \<^verbatim>\<open>PRIVATE\<close>, \<^verbatim>\<open>CONNECTED\<close>, \<^verbatim>\<open>CLOSED\<close>, \<^verbatim>\<open>AI\<close>;
  for any other status it sets \<^verbatim>\<open>OTP\<close> and \<^verbatim>\<open>OTP_EXP\<close> of that user to the empty string and
  changes no other row. The task of \<^verbatim>\<open>clean_otp_directly\<close> does the same.
\<close>

theorem cleanup_follows_status_list:
  assumes "select_user db uid = Some u"
  shows "(if status u \<in> set [''RANDOM'', ''PRIVATE'', ''CONNECTED'', ''CLOSED'', ''AI'']
          then clean_otp db uid = db
          else select_user (clean_otp db uid) uid = Some (u\<lparr>otp := Some [], otp_exp := Some []\<rparr>)
             \<and> (\<forall>v. v \<noteq> uid \<longrightarrow> select_user (clean_otp db uid) v = select_user db v))
       \<and> clean_otp_directly db uid = clean_otp db uid"
  using assms
  by (simp add: clean_otp_def clean_otp_directly_def select_user_update_same select_user_update_other)

theorem cleanup_follows_status_list_witness:
  "select_user (clean_otp
     [\<lparr>user_id = 300, peer_id = Some ''a1b2c3'', status = ''LISTENER'', timer = 5760, otp = Some ''4821'', otp_exp = None, anony_name = ''Hidden12AB''\<rparr>,
      \<lparr>user_id = 400, peer_id = Some [], status = ''OPEN'', timer = 120, otp = Some [], otp_exp = None, anony_name = ''Secret9ZQ1''\<rparr>] 300) 300
   = Some \<lparr>user_id = 300, peer_id = Some ''a1b2c3'', status = ''LISTENER'', timer = 5760, otp = Some [], otp_exp = Some [], anony_name = ''Hidden12AB''\<rparr>
   \<and> clean_otp
     [\<lparr>user_id = 300, peer_id = Some ''400'', status = ''CONNECTED'', timer = 5760, otp = Some ''4821'', otp_exp = None, anony_name = ''Hidden12AB''\<rparr>] 300
   = [\<lparr>user_id = 300, peer_id = Some ''400'', status = ''CONNECTED'', timer = 5760, otp = Some ''4821'', otp_exp = None, anony_name = ''Hidden12AB''\<rparr>]"
proof -
  let ?u = "\<lparr>user_id = 300, peer_id = Some ''a1b2c3'', status = ''LISTENER'', timer = 5760, otp = Some ''4821'', otp_exp = None, anony_name = ''Hidden12AB''\<rparr>"
  let ?w = "\<lparr>user_id = 400, peer_id = Some [], status = ''OPEN'', timer = 120, otp = Some [], otp_exp = None, anony_name = ''Secret9ZQ1''\<rparr>"
  let ?c = "\<lparr>user_id = 300, peer_id = Some ''400'', status = ''CONNECTED'', timer = 5760, otp = Some ''4821'', otp_exp = None, anony_name = ''Hidden12AB''\<rparr>"
  have h1: "select_user [?u, ?w] 300 = Some ?u" by (simp add: select_user_def)
  have h2: "select_user [?c] 300 = Some ?c" by (simp add: select_user_def)
  from cleanup_follows_status_list [OF h1] cleanup_follows_status_list [OF h2]
  show ?thesis by simp
qed

text \<open>
  C4 as stated fails for the issuer whose link is still unclaimed: issuing the link sets the
  status to \<^verbatim>\<open>PRIVATE\<close>, which is in the list, so the cleanup keeps the OTP.
\<close>

theorem cleanup_keeps_unclaimed_otp_counterexample:
  "check_user_status
     [\<lparr>user_id = 300, peer_id = Some [], status = ''OPEN'', timer = 120, otp = Some [], otp_exp = None, anony_name = ''Hidden12AB''\<rparr>]
     300 4821 123456 54321
   = (Link_success ''4821'' ''/92123456482130054321'',
     [\<lparr>user_id = 300, peer_id = Some [], status = ''PRIVATE'', timer = 5760, otp = Some ''4821'', otp_exp = None, anony_name = ''Hidden12AB''\<rparr>])
   \<and> clean_otp (snd (check_user_status
     [\<lparr>user_id = 300, peer_id = Some [], status = ''OPEN'', timer = 120, otp = Some [], otp_exp = None, anony_name = ''Hidden12AB''\<rparr>]
     300 4821 123456 54321)) 300
   = [\<lparr>user_id = 300, peer_id = Some [], status = ''PRIVATE'', timer = 5760, otp = Some ''4821'', otp_exp = None, anony_name = ''Hidden12AB''\<rparr>]
   \<and> otp_range 4821 \<and> random_number_range 6 123456 \<and> random_number_range 5 54321"
  by (simp add: check_user_status_def clean_otp_def select_user_def update_users_def truthy_def
      live_otp_def generate_otp_def token_eval Let_def otp_range_def random_number_range_def)


section \<open>Evaluating the engine on concrete tables\<close>

lemmas engine_eval = select_user_def update_users_def update_users_text_def sql_integer_digits
  int64_range_def isdigit_def py_ord_def digits_value_def digit_value_def truthy_def str_int_def
  str_nat.simps
  digit_char_eval Let_def

section \<open>C6: accepting an anonymous-number connection\<close>

text \<open>
  When both messages to the old peers are delivered, accepting does what C6 says: with the
  responder \<open>a\<close> connected to \<open>p\<close> and the requester \<open>c\<close> connected to \<open>d\<close> (ids that fit 64
  bits, as every \<^verbatim>\<open>USER_ID\<close> does), the rows of \<open>p\<close> and
  \<open>d\<close> become \<^verbatim>\<open>CLOSED\<close> with \<^verbatim>\<open>PEER_ID\<close> \<^verbatim>\<open>NULL\<close>, and \<open>a\<close> and \<open>c\<close> become \<^verbatim>\<open>CONNECTED\<close> to each
  other.
\<close>

lemma disconnect_current_peer_notified:
  assumes "status u \<in> set [''CONNECTED'', ''PRIVATE'', ''RANDOM'']"
      and "peer_id u = Some (str_int p)" and "send_message_ok b (str_int p)"
      and "int64_range p"
  shows "disconnect_current_peer b db (Some u)
           = update_users db p (\<lambda>r. r\<lparr>status := ''CLOSED'', peer_id := None\<rparr>)"
  using assms
  by (simp add: disconnect_current_peer_def truthy_def str_int_nonempty update_users_text_def
      sql_integer_str_int)

lemma accept_cleans_up_when_notified:
  assumes ua: "select_user db a = Some ua" and sa: "status ua \<in> set [''CONNECTED'', ''PRIVATE'', ''RANDOM'']"
      and pa: "peer_id ua = Some (str_int p)"
      and uc: "select_user db c = Some uc" and sc: "status uc \<in> set [''CONNECTED'', ''PRIVATE'', ''RANDOM'']"
      and pc: "peer_id uc = Some (str_int d)"
      and up: "select_user db p = Some up" and ud: "select_user db d = Some ud"
      and dist: "distinct [a, p, c, d]"
      and okp: "send_message_ok b (str_int p)" and okd: "send_message_ok b (str_int d)"
      and rp: "int64_range p" and rd: "int64_range d"
      and act: "action \<noteq> ''decline''"
  shows "select_user (handle_an_connection_response b db action c a) p
           = Some (up\<lparr>status := ''CLOSED'', peer_id := None\<rparr>)
       \<and> select_user (handle_an_connection_response b db action c a) d
           = Some (ud\<lparr>status := ''CLOSED'', peer_id := None\<rparr>)
       \<and> select_user (handle_an_connection_response b db action c a) a
           = Some (ua\<lparr>status := ''CONNECTED'', peer_id := Some (str_int c)\<rparr>)
       \<and> select_user (handle_an_connection_response b db action c a) c
           = Some (uc\<lparr>status := ''CONNECTED'', peer_id := Some (str_int a)\<rparr>)"
proof -
  let ?close = "\<lambda>r::user. r\<lparr>status := ''CLOSED'', peer_id := None\<rparr>"
  have d1: "disconnect_current_peer b db (Some ua) = update_users db p ?close"
    by (rule disconnect_current_peer_notified [OF sa pa okp rp])
  have d2: "disconnect_current_peer b (update_users db p ?close) (Some uc)
              = update_users (update_users db p ?close) d ?close"
    by (rule disconnect_current_peer_notified [OF sc pc okd rd])
  have eq: "handle_an_connection_response b db action c a
      = update_users (update_users (update_users (update_users db p ?close) d ?close) c
          (\<lambda>r. r\<lparr>status := ''CONNECTED'', peer_id := Some (str_int a)\<rparr>)) a
          (\<lambda>r. r\<lparr>status := ''CONNECTED'', peer_id := Some (str_int c)\<rparr>)"
    using act by (simp add: handle_an_connection_response_def Let_def ua uc d1 d2)
  show ?thesis
    unfolding eq using dist ua uc up ud
    by (simp add: select_user_update_same select_user_update_other)
qed

text \<open>
  C6. Given A connected to B and C connected to D, accepting a connection between A and C must
  close B and D and clear their \<^verbatim>\<open>PEER_ID\<close>. The code does not do so when the message to an
  old peer raises: here \<^verbatim>\<open>bot.send_message('2', ...)\<close> fails, the \<^verbatim>\<open>UPDATE\<close> that follows it
  in the same \<^verbatim>\<open>try\<close> is skipped, and user 2 stays \<^verbatim>\<open>CONNECTED\<close> with \<^verbatim>\<open>PEER_ID\<close> 1 while
  user 1 is paired with user 3.
\<close>

theorem accept_leaves_old_peer_connected:
  "handle_an_connection_response
     \<lparr>send_message_ok = (\<lambda>chat. chat \<noteq> ''2''), answer_callback_query_ok = True\<rparr>
     [\<lparr>user_id = 1, peer_id = Some ''2'', status = ''CONNECTED'', timer = 120, otp = Some [], otp_exp = None, anony_name = ''Hidden12AB''\<rparr>,
      \<lparr>user_id = 2, peer_id = Some ''1'', status = ''CONNECTED'', timer = 120, otp = Some [], otp_exp = None, anony_name = ''Secret9ZQ1''\<rparr>,
      \<lparr>user_id = 3, peer_id = Some ''4'', status = ''CONNECTED'', timer = 120, otp = Some [], otp_exp = None, anony_name = ''Unknown77XY''\<rparr>,
      \<lparr>user_id = 4, peer_id = Some ''3'', status = ''CONNECTED'', timer = 120, otp = Some [], otp_exp = None, anony_name = ''Anonymous0K3M''\<rparr>]
     ''accept'' 3 1
   = [\<lparr>user_id = 1, peer_id = Some ''3'', status = ''CONNECTED'', timer = 120, otp = Some [], otp_exp = None, anony_name = ''Hidden12AB''\<rparr>,
      \<lparr>user_id = 2, peer_id = Some ''1'', status = ''CONNECTED'', timer = 120, otp = Some [], otp_exp = None, anony_name = ''Secret9ZQ1''\<rparr>,
      \<lparr>user_id = 3, peer_id = Some ''1'', status = ''CONNECTED'', timer = 120, otp = Some [], otp_exp = None, anony_name = ''Unknown77XY''\<rparr>,
      \<lparr>user_id = 4, peer_id = None, status = ''CLOSED'', timer = 120, otp = Some [], otp_exp = None, anony_name = ''Anonymous0K3M''\<rparr>]"
  by (simp add: handle_an_connection_response_def disconnect_current_peer_def engine_eval)

section \<open>C3: the short code of a broadcast channel\<close>

lemma channel_id_1:
  "create_broadcasting_channel_id 123456789 ''Hidden12AB'' ''AB'' ''CDE'' ''FGHI''
     = ''/BCSTAB123456789CDEHidden12ABFGHI''"
  by (simp add: create_broadcasting_channel_id_def upper_def upper_char_def py_ord_def
      str_int_def str_nat.simps digit_char_eval)

lemma channel_id_2:
  "create_broadcasting_channel_id 123456789 ''Hidden12AB'' ''AB'' ''1DE'' ''FGHI''
     = ''/BCSTAB1234567891DEHidden12ABFGHI''"
  by (simp add: create_broadcasting_channel_id_def upper_def upper_char_def py_ord_def
      str_int_def str_nat.simps digit_char_eval)

lemma extract_1: "extract_broadcaster_id ''/BCSTAB123456789CDEHidden12ABFGHI'' = Some ''56789''"
  by code_simp

lemma extract_2: "extract_broadcaster_id ''/BCSTAB1234567891DEHidden12ABFGHI'' = Some ''567891''"
  by code_simp

lemma code_1: "map code_char (take 6 (md5_hexdigest ''56789'')) = ''099ebe''"
  by code_simp

lemma code_2: "map code_char (take 6 (md5_hexdigest ''567891'')) = ''8f6207''"
  by code_simp

lemma paddings: "random_alphanumeric 2 ''AB'' \<and> random_alphanumeric 3 ''CDE''
   \<and> random_alphanumeric 3 ''1DE'' \<and> random_alphanumeric 4 ''FGHI''"
  by code_simp

text \<open>
  C3. Two channel ids made by \<^verbatim>\<open>create_broadcasting_channel_id\<close> for the same user id
  123456789 and the same anony name, differing only in the random padding after the user id
  (\<^verbatim>\<open>CDE\<close> against \<^verbatim>\<open>1DE\<close>), must get the same short code. They do not:
  \<^verbatim>\<open>extract_broadcaster_id\<close> finds no \<^verbatim>\<open>/BCST:\<close> and falls back to the digits after position
  11, which are \<^verbatim>\<open>56789\<close> for the first id and \<^verbatim>\<open>567891\<close> for the second, and the two codes
  are \<^verbatim>\<open>099ebe\<close> and \<^verbatim>\<open>8f6207\<close>.
\<close>

theorem short_code_depends_on_padding:
  "random_alphanumeric 2 ''AB'' \<and> random_alphanumeric 3 ''CDE''
   \<and> random_alphanumeric 3 ''1DE'' \<and> random_alphanumeric 4 ''FGHI''
   \<and> extract_broadcaster_id (create_broadcasting_channel_id 123456789 ''Hidden12AB'' ''AB'' ''CDE'' ''FGHI'')
       = Some ''56789''
   \<and> extract_broadcaster_id (create_broadcasting_channel_id 123456789 ''Hidden12AB'' ''AB'' ''1DE'' ''FGHI'')
       = Some ''567891''
   \<and> convert_to_fixed_code (create_broadcasting_channel_id 123456789 ''Hidden12AB'' ''AB'' ''CDE'' ''FGHI'')
       = ''099ebe''
   \<and> convert_to_fixed_code (create_broadcasting_channel_id 123456789 ''Hidden12AB'' ''AB'' ''1DE'' ''FGHI'')
       = ''8f6207''"
  unfolding channel_id_1 channel_id_2 convert_to_fixed_code_def extract_1 extract_2
  using paddings code_1 code_2 by simp

section \<open>C1: the symmetric pairing invariant\<close>

text \<open>
  C1. After every operation, whoever points at a user from a two-sided status must be
  pointed back at. \<^verbatim>\<open>handle_forward_button\<close> breaks this: users 100 and 200 are paired by a
  random match, user 100 presses forward, and user 200 is left with status \<^verbatim>\<open>RANDOM\<close> and
  \<^verbatim>\<open>PEER_ID\<close> 100 while user 100 has status \<^verbatim>\<open>OPEN\<close>.
\<close>

theorem forward_breaks_symmetric_pairing:
  "symmetric_pairing
     [\<lparr>user_id = 100, peer_id = Some ''200'', status = ''RANDOM'', timer = 120, otp = Some [], otp_exp = None, anony_name = ''Hidden12AB''\<rparr>,
      \<lparr>user_id = 200, peer_id = Some ''100'', status = ''RANDOM'', timer = 120, otp = Some [], otp_exp = None, anony_name = ''Secret9ZQ1''\<rparr>]
   \<and> step \<lparr>send_message_ok = (\<lambda>chat. True), answer_callback_query_ok = True\<rparr>
     [\<lparr>user_id = 100, peer_id = Some ''200'', status = ''RANDOM'', timer = 120, otp = Some [], otp_exp = None, anony_name = ''Hidden12AB''\<rparr>,
      \<lparr>user_id = 200, peer_id = Some ''100'', status = ''RANDOM'', timer = 120, otp = Some [], otp_exp = None, anony_name = ''Secret9ZQ1''\<rparr>]
     (Forward 100)
   = [\<lparr>user_id = 100, peer_id = Some ''200'', status = ''OPEN'', timer = 120, otp = Some [], otp_exp = None, anony_name = ''Hidden12AB''\<rparr>,
      \<lparr>user_id = 200, peer_id = Some ''100'', status = ''RANDOM'', timer = 120, otp = Some [], otp_exp = None, anony_name = ''Secret9ZQ1''\<rparr>]
   \<and> \<not> symmetric_pairing
     [\<lparr>user_id = 100, peer_id = Some ''200'', status = ''OPEN'', timer = 120, otp = Some [], otp_exp = None, anony_name = ''Hidden12AB''\<rparr>,
      \<lparr>user_id = 200, peer_id = Some ''100'', status = ''RANDOM'', timer = 120, otp = Some [], otp_exp = None, anony_name = ''Secret9ZQ1''\<rparr>]"
  by (simp add: symmetric_pairing_def bilateral_def handle_forward_button_def get_user_status_def
      update_user_status_def engine_eval)

text \<open>Joining a broadcast leaves the former partner behind in the same way.\<close>

lemma code_of_channel_id_1: "convert_to_fixed_code ''/BCSTAB123456789CDEHidden12ABFGHI'' = ''099ebe''"
  unfolding convert_to_fixed_code_def extract_1 using code_1 by simp

lemma strip_channel_id_1: "strip ''/BCSTAB123456789CDEHidden12ABFGHI'' = ''/BCSTAB123456789CDEHidden12ABFGHI''"
  by (simp add: strip_def isspace_def py_ord_def)

lemma join_breaks_symmetric_pairing:
  "step \<lparr>send_message_ok = (\<lambda>chat. True), answer_callback_query_ok = True\<rparr>
     [\<lparr>user_id = 100, peer_id = Some ''200'', status = ''RANDOM'', timer = 120, otp = Some [], otp_exp = None, anony_name = ''Hidden12AB''\<rparr>,
      \<lparr>user_id = 200, peer_id = Some ''100'', status = ''RANDOM'', timer = 120, otp = Some [], otp_exp = None, anony_name = ''Secret9ZQ1''\<rparr>]
     (Join_broadcast ''/BCSTAB123456789CDEHidden12ABFGHI'' 100)
   = [\<lparr>user_id = 100, peer_id = Some ''099ebe'', status = ''LISTENER'', timer = 120, otp = Some [], otp_exp = None, anony_name = ''Hidden12AB''\<rparr>,
      \<lparr>user_id = 200, peer_id = Some ''100'', status = ''RANDOM'', timer = 120, otp = Some [], otp_exp = None, anony_name = ''Secret9ZQ1''\<rparr>]
   \<and> \<not> symmetric_pairing
     [\<lparr>user_id = 100, peer_id = Some ''099ebe'', status = ''LISTENER'', timer = 120, otp = Some [], otp_exp = None, anony_name = ''Hidden12AB''\<rparr>,
      \<lparr>user_id = 200, peer_id = Some ''100'', status = ''RANDOM'', timer = 120, otp = Some [], otp_exp = None, anony_name = ''Secret9ZQ1''\<rparr>]"
  by (simp add: process_broadcasting_channel_id_def strip_channel_id_1 code_of_channel_id_1
      validate_listener_channel_id_def startswith_def symmetric_pairing_def bilateral_def engine_eval)

section \<open>C5: the live-OTP invariant\<close>



















end
